theory Spec2Isabelle
  imports Complex_Main "HOL-Library.AList"
begin

section \<open>Dates\<close>

text \<open>
  A JavaScript \<open>Date\<close> holds a time value: integer milliseconds since the epoch, or NaN
  (an "Invalid Date"). It is modelled as \<open>int option\<close>, \<open>None\<close> being the invalid date.
  The host's time zone enters through ECMAScript's abstract operation
  \<open>LocalTZA(t, isUTC)\<close>, which is a parameter of the model (a value of type \<open>zone\<close>), so
  that daylight-saving changes are covered. Numbers are integers and reals; where the
  code's double arithmetic can round (the difference of two dates), the rounding is
  written out.
\<close>

type_synonym zone = "int \<Rightarrow> bool \<Rightarrow> int"

definition msPerDay :: int where
  "msPerDay = 1000 * 60 * 60 * 24"

definition TimeClip :: "int \<Rightarrow> int option" where
  "TimeClip t = (if \<bar>t\<bar> \<le> 8640000000000000 then Some t else None)"

definition LocalTime :: "zone \<Rightarrow> int \<Rightarrow> int" where
  "LocalTime tza t = t + tza t True"

definition UTC :: "zone \<Rightarrow> int \<Rightarrow> int" where
  "UTC tza t = t - tza t False"

text \<open>\<open>a < b\<close> on two dates: both are converted to numbers, and a comparison with NaN is false.\<close>

definition date_lt :: "int option \<Rightarrow> int option \<Rightarrow> bool" where
  "date_lt a b = (case (a, b) of (Some x, Some y) \<Rightarrow> x < y | _ \<Rightarrow> False)"

text \<open>
  \<open>d.setDate(d.getDate() - days)\<close> on a valid date with time value \<open>t\<close>. By ECMAScript,
  \<open>setDate(dt)\<close> is \<open>TimeClip(UTC(MakeDate(MakeDay(year, month, dt), TimeWithinDay(local))))\<close>
  with \<open>local = LocalTime(t)\<close>; since \<open>getDate()\<close> is the day of the month of \<open>local\<close>,
  \<open>MakeDay(year, month, getDate() - days)\<close> is \<open>Day(local) - days\<close>, so the local time moves
  back by \<open>days\<close> whole calendar days and keeps its time within the day.
\<close>

definition setDate_getDate_minus :: "zone \<Rightarrow> int \<Rightarrow> int \<Rightarrow> int option" where
  "setDate_getDate_minus tza t days = TimeClip (UTC tza (LocalTime tza t - days * msPerDay))"

text \<open>
  \<open>toLocaleDateString()\<close>: the local calendar date, represented by its day number
  \<open>Day(LocalTime(t))\<close> (the locale's date format distinguishes any two calendar dates);
  \<open>None\<close> stands for the text "Invalid Date".
\<close>

definition toLocaleDateString :: "zone \<Rightarrow> int option \<Rightarrow> int option" where
  "toLocaleDateString tza d = map_option (\<lambda>t. LocalTime tza t div msPerDay) d"

section \<open>Data model\<close>

text \<open>
  The per-member record inside a snapshot. A field that the object lacks reads as
  \<open>undefined\<close>, which is \<open>None\<close>.
\<close>

record entry_fields =
  last_action_timestamp :: "int option"
  last_action_relative :: "string option"
  status :: "string option"

text \<open>
  What a snapshot's \<open>members\<close> object may hold under a member-id: a JSON scalar or an
  object with the fields above. (An array or an object without these fields behaves as an
  entry object whose three fields are missing; an entry object is taken to have no
  property named \<open>timestamp\<close>.)
\<close>

datatype member_value = JNull | JBool bool | JNum int | JStr string | JObj entry_fields

record snapshot =
  timestamp :: int
  members :: "string \<rightharpoonup> member_value"

text \<open>
  The snapshot's \<open>timestamp\<close> is the time value of \<open>new Date(snapshot.timestamp)\<close> for an
  ISO-8601 string that parses; \<open>members\<close> holds the own properties of the object that
  \<open>JSON.parse\<close> built.
\<close>

text \<open>
  The properties that every such object inherits from \<open>Object.prototype\<close>: eleven
  functions and the accessor \<open>__proto__\<close>, whose getter returns \<open>Object.prototype\<close>.
\<close>

definition object_prototype_keys :: "string list" where
  "object_prototype_keys =
     [''constructor'', ''__defineGetter__'', ''__defineSetter__'', ''hasOwnProperty'',
      ''__lookupGetter__'', ''__lookupSetter__'', ''isPrototypeOf'', ''propertyIsEnumerable'',
      ''toString'', ''valueOf'', ''__proto__'', ''toLocaleString'']"

text \<open>
  What the read \<open>obj[key]\<close> gives: the own property, else the inherited one (a function or
  an object), else \<open>undefined\<close>.
\<close>

datatype property = Undefined | Own member_value | Inherited

definition read_member :: "snapshot \<Rightarrow> string \<Rightarrow> property" where
  "read_member s userId =
     (case members s userId of
        Some v \<Rightarrow> Own v
      | None \<Rightarrow> if userId \<in> set object_prototype_keys then Inherited else Undefined)"

record member =
  name :: string
  level :: int
  days_in_faction :: int

text \<open>The objects pushed onto \<open>memberActivity\<close>: \<open>{timestamp: ..., ...entry}\<close>.\<close>

record activity = entry_fields +
  timestamp :: int

record summary_entry =
  name :: string
  level :: int
  days_in_faction :: int
  last_seen_timestamp :: "int option"
  last_seen_relative :: "string option"
  days_active :: nat
  total_polls :: nat

text \<open>
  The two globals. \<open>activityData = {}\<close> has no \<open>snapshots\<close> property (\<open>None\<close>);
  \<open>membersData\<close> lists its properties in the order \<open>for ... in\<close> enumerates them.
\<close>

record store =
  activityData :: "snapshot list option"
  membersData :: "(string \<times> member) list"

section \<open>Aggregator\<close>

text \<open>\<open>if (v)\<close> on \<open>v = snapshot.members[userId]\<close>; functions and objects are truthy.\<close>

fun truthy :: "property \<Rightarrow> bool" where
  "truthy Undefined = False"
| "truthy Inherited = True"
| "truthy (Own JNull) = False"
| "truthy (Own (JBool b)) = b"
| "truthy (Own (JNum n)) = (n \<noteq> 0)"
| "truthy (Own (JStr s)) = (s \<noteq> [])"
| "truthy (Own (JObj r)) = True"

text \<open>
  \<open>{timestamp: t, ...v}\<close>: an entry object contributes its fields; any other value,
  an inherited function or \<open>Object.prototype\<close> included, has no enumerable own property
  among the three fields read later.
\<close>

fun spread :: "int \<Rightarrow> property \<Rightarrow> activity" where
  "spread t (Own (JObj r)) =
     \<lparr>last_action_timestamp = last_action_timestamp r,
      last_action_relative = last_action_relative r,
      status = status r, timestamp = t\<rparr>"
| "spread t v =
     \<lparr>last_action_timestamp = None, last_action_relative = None, status = None, timestamp = t\<rparr>"

definition snapshots_or_empty :: "'a store_scheme \<Rightarrow> snapshot list" where
  "snapshots_or_empty st = (case activityData st of None \<Rightarrow> [] | Some xs \<Rightarrow> xs)"

definition cutoffDate :: "zone \<Rightarrow> int \<Rightarrow> int \<Rightarrow> int option" where
  "cutoffDate tza now days = setDate_getDate_minus tza now days"

text \<open>The snapshot loop of \<open>getActivitySummary\<close> (lines 69-77), \<open>acc\<close> being \<open>memberActivity\<close>.\<close>

fun memberActivity :: "int option \<Rightarrow> string \<Rightarrow> snapshot list \<Rightarrow> activity list \<Rightarrow> activity list" where
  "memberActivity cutoff userId [] acc = acc"
| "memberActivity cutoff userId (s # rest) acc =
     (if date_lt (Some (snapshot.timestamp s)) cutoff then memberActivity cutoff userId rest acc
      else if truthy (read_member s userId)
        then memberActivity cutoff userId rest
               (acc @ [spread (snapshot.timestamp s) (read_member s userId)])
        else memberActivity cutoff userId rest acc)"

text \<open>A \<open>Set\<close> of date texts, as the list of its elements in insertion order.\<close>

definition set_add :: "'a \<Rightarrow> 'a list \<Rightarrow> 'a list" where
  "set_add x xs = (if x \<in> set xs then xs else xs @ [x])"

text \<open>
  The loop over \<open>memberActivity\<close> that fills \<open>activeDates\<close> (lines 83-88);
  \<open>undefined > 0\<close> is false.
\<close>

fun activeDates :: "zone \<Rightarrow> activity list \<Rightarrow> int option list \<Rightarrow> int option list" where
  "activeDates tza [] acc = acc"
| "activeDates tza (a # rest) acc =
     (case last_action_timestamp a of
        None \<Rightarrow> activeDates tza rest acc
      | Some n \<Rightarrow>
          if n > 0
          then activeDates tza rest (set_add (toLocaleDateString tza (TimeClip (n * 1000))) acc)
          else activeDates tza rest acc)"

text \<open>
  \<open>summary[userId] = entry\<close> on the object literal \<open>summary\<close>, kept as the list of its own
  properties in the order \<open>Object.entries\<close> gives them (keys arrive in the order in which
  \<open>for ... in\<close> enumerated them, so that order is the order of insertion). The key
  \<open>__proto__\<close> reaches the setter inherited from \<open>Object.prototype\<close>, which replaces the
  prototype of \<open>summary\<close> and adds no own property.
\<close>

definition assign ::
  "string \<Rightarrow> summary_entry \<Rightarrow> (string \<times> summary_entry) list \<Rightarrow> (string \<times> summary_entry) list" where
  "assign userId e summary =
     (if userId = ''__proto__'' then summary else AList.update userId e summary)"

text \<open>The loop over the members (lines 65-100), \<open>summary\<close> being the object under construction.\<close>

fun summary_loop ::
  "zone \<Rightarrow> int option \<Rightarrow> snapshot list \<Rightarrow> (string \<times> member) list \<Rightarrow>
   (string \<times> summary_entry) list \<Rightarrow> (string \<times> summary_entry) list" where
  "summary_loop tza cutoff snapshots [] summary = summary"
| "summary_loop tza cutoff snapshots ((userId, m) # rest) summary =
     (let acts = memberActivity cutoff userId snapshots [] in
      if length acts > 0 then
        (let mostRecent = acts ! (length acts - 1);
             dates = activeDates tza acts []
         in summary_loop tza cutoff snapshots rest
              (assign userId
                 \<lparr>name = member.name m, level = member.level m,
                  days_in_faction = member.days_in_faction m,
                  last_seen_timestamp = last_action_timestamp mostRecent,
                  last_seen_relative = last_action_relative mostRecent,
                  days_active = length dates,
                  total_polls = length acts\<rparr> summary))
      else summary_loop tza cutoff snapshots rest summary)"

definition getActivitySummary ::
  "zone \<Rightarrow> int \<Rightarrow> int \<Rightarrow> 'a store_scheme \<Rightarrow> (string \<times> summary_entry) list" where
  "getActivitySummary tza now days st =
     summary_loop tza (cutoffDate tza now days) (snapshots_or_empty st) (membersData st) []"

section \<open>Renderer\<close>

text \<open>
  The page: the two globals, the console, the selected day count
  (\<open>parseInt\<close> of the \<open>timeRange\<close> control) and the elements the script writes, all of
  which the document is taken to contain. An element that the script has not written yet
  holds the page's static markup (\<open>None\<close>). Markup is kept as a view model: what a
  template shows, not its HTML text.

  A function that reads the clock takes the reading as its argument \<open>now\<close>; the readings
  taken during one synchronous render are taken to be equal.
\<close>

datatype log = Warn string | Error string

record row =
  row_userId :: string
  row_name :: string
  row_last_seen :: "string option"
  row_days_active :: nat
  statusClass :: string
  statusText :: string

datatype table = Placeholder string | Rows "row list"

record cards =
  total_members :: nat
  active24h :: nat
  loggedDays :: int
  lastPoll :: int

datatype stats = Dashes | Cards cards

datatype updated = Loading | LastPollTime int

record timeline_entry =
  entry_time :: int
  entry_relative :: "string option"
  entry_status :: "string option"

datatype timeline = NoActivity string | Entries "timeline_entry list"

record page = store +
  console :: "log list"
  timeRange :: int
  membersTable :: "table option"
  summaryPanel :: "stats option"
  lastUpdated :: "updated option"
  memberName :: "string option"
  timelinePanel :: "timeline option"
  activityDetailHidden :: bool

text \<open>A statement either completes or throws; both leave a page behind.\<close>

datatype completion = Normal page | Throw page

text \<open>
  \<open>(Date.now() - ts * 1000) / 60000\<close>; \<open>undefined * 1000\<close> is NaN (\<open>None\<close>), and
  \<open>NaN < c\<close> is false.
\<close>

definition minutesAgo :: "int \<Rightarrow> int option \<Rightarrow> real option" where
  "minutesAgo now ts = map_option (\<lambda>t. real_of_int (now - t * 1000) / 60000) ts"

definition num_lt :: "real option \<Rightarrow> real \<Rightarrow> bool" where
  "num_lt x c = (case x of None \<Rightarrow> False | Some v \<Rightarrow> v < c)"

text \<open>
  The double nearest to an integer of magnitude below \<open>2^54\<close>, ties to even: up to
  \<open>2^53\<close> every integer is a double, beyond it every even one. The difference of two
  time values is such an integer, since a time value is at most 8640000000000000.
\<close>

definition double_of :: "int \<Rightarrow> int" where
  "double_of x =
     (if \<bar>x\<bar> \<le> 9007199254740992 then x
      else if even x then x
      else if x mod 4 = 1 then x - 1 else x + 1)"

text \<open>
  \<open>snapshots[snapshots.length - 1].timestamp\<close> on an empty array reads a property of
  \<open>undefined\<close> and throws. \<open>lastDate - firstDate\<close> is a subtraction of doubles; dividing
  its result by the milliseconds of a day and taking the floor gives the same integer in
  doubles as in exact arithmetic.
\<close>

definition renderStats ::
  "int \<Rightarrow> (string \<times> summary_entry) list \<Rightarrow> snapshot list \<Rightarrow> page \<Rightarrow> completion" where
  "renderStats now summary snapshots pg =
     (if snapshots = [] then Throw pg
      else
        let lastPoll = snapshot.timestamp (snapshots ! (length snapshots - 1));
            active = length (filter (\<lambda>(userId, m).
                        num_lt (minutesAgo now (last_seen_timestamp m)) 1440) summary);
            firstDate = snapshot.timestamp (snapshots ! 0);
            lastDate = snapshot.timestamp (snapshots ! (length snapshots - 1));
            logged = \<lfloor>real_of_int (double_of (lastDate - firstDate)) /
                       real_of_int (1000 * 60 * 60 * 24)\<rfloor> + 1
        in Normal (pg\<lparr>summaryPanel := Some (Cards
                       \<lparr>total_members = length summary, active24h = active,
                        loggedDays = logged, lastPoll = lastPoll\<rparr>),
                     lastUpdated := Some (LastPollTime lastPoll)\<rparr>))"

text \<open>
  The comparator \<open>(a, b) => b[1].last_seen_timestamp - a[1].last_seen_timestamp\<close>; a NaN
  result counts as 0. \<open>comes_after a b\<close> says that the comparator is positive on \<open>(a, b)\<close>.
  \<open>Array.prototype.sort\<close> is stable; it is modelled by insertion from the left, which is the
  stable order whenever every timestamp is a number. When a timestamp is \<open>undefined\<close> the
  comparator is not consistent and ECMAScript leaves the order to the engine: then the
  rows are the engine's rows, in an order that need not be this one.
\<close>

definition comes_after :: "string \<times> summary_entry \<Rightarrow> string \<times> summary_entry \<Rightarrow> bool" where
  "comes_after a b =
     (case (last_seen_timestamp (snd b), last_seen_timestamp (snd a)) of
        (Some y, Some x) \<Rightarrow> y - x > 0
      | _ \<Rightarrow> False)"

fun insert_sorted ::
  "string \<times> summary_entry \<Rightarrow> (string \<times> summary_entry) list \<Rightarrow> (string \<times> summary_entry) list" where
  "insert_sorted x [] = [x]"
| "insert_sorted x (y # ys) = (if comes_after y x then x # y # ys else y # insert_sorted x ys)"

definition sort_entries :: "(string \<times> summary_entry) list \<Rightarrow> (string \<times> summary_entry) list" where
  "sort_entries xs = fold insert_sorted xs []"

text \<open>The body of the loop of \<open>renderMembers\<close> (lines 146-167): one table row.\<close>

definition render_row :: "int \<Rightarrow> string \<times> summary_entry \<Rightarrow> row" where
  "render_row now e =
     (let userId = fst e; d = snd e;
          ago = minutesAgo now (last_seen_timestamp d);
          label = (if num_lt ago 60 then (''status-active'', ''Online'')
                   else if num_lt ago 1440 then (''status-warning'', ''Today'')
                   else (''status-inactive'', ''Offline''))
      in \<lparr>row_userId = userId, row_name = summary_entry.name d,
          row_last_seen = last_seen_relative d, row_days_active = days_active d,
          statusClass = fst label, statusText = snd label\<rparr>)"

definition renderMembers :: "int \<Rightarrow> (string \<times> summary_entry) list \<Rightarrow> page \<Rightarrow> page" where
  "renderMembers now summary pg =
     (let html = map (render_row now) (sort_entries summary)
      in pg\<lparr>membersTable :=
              Some (if html = [] then Placeholder ''No members found'' else Rows html)\<rparr>)"

definition updateStats :: "page \<Rightarrow> page" where
  "updateStats pg = pg\<lparr>summaryPanel := Some Dashes, lastUpdated := Some Loading\<rparr>"

definition renderDashboard :: "zone \<Rightarrow> int \<Rightarrow> page \<Rightarrow> completion" where
  "renderDashboard tza now pg =
     (let snapshots = snapshots_or_empty pg in
      if length snapshots = 0 then
        Normal (updateStats
          (pg\<lparr>membersTable := Some (Placeholder ''No data yet. Tracker will populate this.'')\<rparr>))
      else
        let days = timeRange pg;
            summary = getActivitySummary tza now days pg
        in case renderStats now summary snapshots pg of
             Throw p \<Rightarrow> Throw p
           | Normal p \<Rightarrow> Normal (renderMembers now summary p))"

section \<open>Activity display\<close>

text \<open>The snapshot loop of \<open>showActivity\<close> (lines 208-216).\<close>

fun timelineActivity :: "int option \<Rightarrow> string \<Rightarrow> snapshot list \<Rightarrow> activity list \<Rightarrow> activity list" where
  "timelineActivity cutoff userId [] acc = acc"
| "timelineActivity cutoff userId (s # rest) acc =
     (if date_lt (Some (snapshot.timestamp s)) cutoff
      then timelineActivity cutoff userId rest acc
      else if truthy (read_member s userId)
        then timelineActivity cutoff userId rest
               (acc @ [spread (snapshot.timestamp s) (read_member s userId)])
        else timelineActivity cutoff userId rest acc)"

text \<open>\<open>memberActivity\<close> of \<open>showActivity\<close> after \<open>memberActivity.reverse()\<close> (line 218).\<close>

definition showActivity_list :: "zone \<Rightarrow> int \<Rightarrow> string \<Rightarrow> page \<Rightarrow> activity list" where
  "showActivity_list tza now userId pg =
     (let snapshots = snapshots_or_empty pg;
          daysRange = timeRange pg;
          cutoff = setDate_getDate_minus tza now daysRange
      in rev (timelineActivity cutoff userId snapshots []))"

definition render_entry :: "activity \<Rightarrow> timeline_entry" where
  "render_entry a =
     \<lparr>entry_time = activity.timestamp a, entry_relative = last_action_relative a,
      entry_status = status a\<rparr>"

definition showActivity :: "zone \<Rightarrow> int \<Rightarrow> string \<Rightarrow> string \<Rightarrow> page \<Rightarrow> page" where
  "showActivity tza now userId nm pg =
     (let html = map render_entry (showActivity_list tza now userId pg)
      in pg\<lparr>memberName := Some nm,
            timelinePanel := Some (if html = [] then NoActivity ''No activity data'' else Entries html),
            activityDetailHidden := False\<rparr>)"

section \<open>Data loader\<close>

text \<open>
  What \<open>await fetch(url)\<close> gives: the promise rejects, or it resolves to a response with
  its \<open>ok\<close> flag and what \<open>await response.json()\<close> gives (\<open>None\<close> when that promise
  rejects, as on a body that is not JSON).
\<close>

datatype 'a response = Response (ok: bool) (json: "'a option")

datatype 'a fetched = Rejected | Resolved "'a response"

definition and_then :: "completion \<Rightarrow> (page \<Rightarrow> completion) \<Rightarrow> completion" where
  "and_then c f = (case c of Throw p \<Rightarrow> Throw p | Normal p \<Rightarrow> f p)"

definition warn :: "string \<Rightarrow> page \<Rightarrow> page" where
  "warn msg pg = pg\<lparr>console := console pg @ [Warn msg]\<rparr>"

text \<open>The \<open>try\<close> block of \<open>initializeDashboard\<close> (lines 14-29).\<close>

definition try_block ::
  "zone \<Rightarrow> int \<Rightarrow> snapshot list option fetched \<Rightarrow> (string \<times> member) list fetched \<Rightarrow>
   page \<Rightarrow> completion" where
  "try_block tza now fa fm pg =
     (case fa of
        Rejected \<Rightarrow> Throw pg
      | Resolved activityResponse \<Rightarrow>
         (case fm of
            Rejected \<Rightarrow> Throw pg
          | Resolved membersResponse \<Rightarrow>
              and_then
                (if ok activityResponse
                 then (case json activityResponse of
                         None \<Rightarrow> Throw pg
                       | Some a \<Rightarrow> Normal (pg\<lparr>activityData := a\<rparr>))
                 else Normal (warn ''No activity data found'' pg))
                (\<lambda>pg1. and_then
                   (if ok membersResponse
                    then (case json membersResponse of
                            None \<Rightarrow> Throw pg1
                          | Some m \<Rightarrow> Normal (pg1\<lparr>membersData := m\<rparr>))
                    else Normal (warn ''No members data found'' pg1))
                   (renderDashboard tza now))))"

text \<open>The \<open>catch\<close> block (lines 31-32).\<close>

definition catch_block :: "page \<Rightarrow> page" where
  "catch_block pg =
     pg\<lparr>console := console pg @ [Error ''Error loading data:''],
        membersTable := Some (Placeholder ''Error loading data. Run tracker first.'')\<rparr>"

definition initializeDashboard ::
  "zone \<Rightarrow> int \<Rightarrow> snapshot list option fetched \<Rightarrow> (string \<times> member) list fetched \<Rightarrow>
   page \<Rightarrow> page" where
  "initializeDashboard tza now fa fm pg =
     (case try_block tza now fa fm pg of
        Normal p \<Rightarrow> p
      | Throw p \<Rightarrow> catch_block p)"

text \<open>
  The page when \<open>DOMContentLoaded\<close> fires: both globals are \<open>{}\<close>, nothing is logged and
  no element has been written. The detail panel starts hidden.
\<close>

definition page_loaded :: "int \<Rightarrow> page" where
  "page_loaded days =
     \<lparr>activityData = None, membersData = [], console = [], timeRange = days,
      membersTable = None, summaryPanel = None, lastUpdated = None,
      memberName = None, timelinePanel = None, activityDetailHidden = True\<rparr>"

section \<open>Notions used by the properties\<close>

text \<open>
  The notions below are stated on their own, without the functions of the script, so that
  a property relates what the script computes to what is said about it.
\<close>

text \<open>The time values that a \<open>Date\<close> can hold.\<close>

definition is_date :: "int \<Rightarrow> bool" where
  "is_date t = (\<bar>t\<bar> \<le> 8640000000000000)"

text \<open>
  \<open>now - d days\<close>, at calendar-day granularity: the instant at which the local clock
  shows, \<open>d\<close> calendar days before today, the time of day it shows now.
\<close>

definition window_start :: "zone \<Rightarrow> int \<Rightarrow> int \<Rightarrow> int" where
  "window_start tza now days =
     (let wall = now + tza now True - days * 86400000 in wall - tza wall False)"

text \<open>The snapshot's \<open>members\<close> mapping contains the member-id: the key is there.\<close>

definition mentions :: "snapshot \<Rightarrow> string \<Rightarrow> bool" where
  "mentions s userId = (members s userId \<noteq> None)"

text \<open>The falsy JSON values: \<open>null\<close>, \<open>false\<close>, \<open>0\<close> and the empty string.\<close>

fun falsy :: "member_value \<Rightarrow> bool" where
  "falsy JNull = True"
| "falsy (JBool b) = (\<not> b)"
| "falsy (JNum n) = (n = 0)"
| "falsy (JStr s) = (s = [])"
| "falsy (JObj r) = False"

text \<open>
  The snapshot holds an entry for the member-id: the value under the key is not falsy, or
  there is no such key and the id names a property that every object inherits.
\<close>

definition holds_entry :: "snapshot \<Rightarrow> string \<Rightarrow> bool" where
  "holds_entry s userId =
     (case members s userId of
        Some v \<Rightarrow> \<not> falsy v
      | None \<Rightarrow> userId \<in> set object_prototype_keys)"

text \<open>The \<open>last_action\<close> fields of what a mapping holds under a key, when it is an entry object.\<close>

fun entry_timestamp :: "member_value option \<Rightarrow> int option" where
  "entry_timestamp (Some (JObj r)) = last_action_timestamp r"
| "entry_timestamp v = None"

fun entry_relative :: "member_value option \<Rightarrow> string option" where
  "entry_relative (Some (JObj r)) = last_action_relative r"
| "entry_relative v = None"

text \<open>
  The window read as the closed interval \<open>[now - d days, now]\<close>, and the members that
  some snapshot of that interval mentions.
\<close>

definition in_closed_window :: "zone \<Rightarrow> int \<Rightarrow> int \<Rightarrow> snapshot \<Rightarrow> bool" where
  "in_closed_window tza now days s =
     (window_start tza now days \<le> snapshot.timestamp s \<and> snapshot.timestamp s \<le> now)"

definition seen_in_closed_window :: "zone \<Rightarrow> int \<Rightarrow> int \<Rightarrow> 'a store_scheme \<Rightarrow> string \<Rightarrow> bool" where
  "seen_in_closed_window tza now days st userId =
     (userId \<in> fst ` set (membersData st) \<and>
      list_ex (\<lambda>s. in_closed_window tza now days s \<and> mentions s userId)
        (snapshots_or_empty st))"

text \<open>The in-window snapshots (\<open>timestamp >= cutoff\<close>) that mention a member, oldest first.\<close>

definition window_mentions :: "zone \<Rightarrow> int \<Rightarrow> int \<Rightarrow> 'a store_scheme \<Rightarrow> string \<Rightarrow> snapshot list" where
  "window_mentions tza now days st userId =
     filter (\<lambda>s. window_start tza now days \<le> snapshot.timestamp s \<and> mentions s userId)
       (snapshots_or_empty st)"

text \<open>The last of them, and the \<open>last_action_timestamp\<close> of what it holds for the member.\<close>

definition last_mention :: "zone \<Rightarrow> int \<Rightarrow> int \<Rightarrow> 'a store_scheme \<Rightarrow> string \<Rightarrow> snapshot option" where
  "last_mention tza now days st userId =
     (case rev (window_mentions tza now days st userId) of [] \<Rightarrow> None | s # rest \<Rightarrow> Some s)"

definition last_mention_timestamp :: "zone \<Rightarrow> int \<Rightarrow> int \<Rightarrow> 'a store_scheme \<Rightarrow> string \<Rightarrow> int option" where
  "last_mention_timestamp tza now days st userId =
     (case last_mention tza now days st userId of
        None \<Rightarrow> None
      | Some s \<Rightarrow> entry_timestamp (members s userId))"




text \<open>
  The Data Logged card of a rendered dashboard, and the day span
  \<open>floor((last - first) / 1 day) + 1\<close> of a snapshot sequence.
\<close>

definition data_logged :: "completion \<Rightarrow> int option" where
  "data_logged c =
     (case c of
        Throw p \<Rightarrow> None
      | Normal p \<Rightarrow> (case summaryPanel p of Some (Cards c) \<Rightarrow> Some (loggedDays c) | _ \<Rightarrow> None))"

definition day_span :: "snapshot list \<Rightarrow> int" where
  "day_span snaps =
     \<lfloor>real_of_int (snapshot.timestamp (last snaps) - snapshot.timestamp (hd snaps)) / 86400000\<rfloor> + 1"

text \<open>A fetch throws when its promise rejects or when reading the body of an OK response rejects.\<close>

fun fetch_throws :: "'a fetched \<Rightarrow> bool" where
  "fetch_throws Rejected = True"
| "fetch_throws (Resolved r) = (ok r \<and> json r = None)"

fun non_ok :: "'a fetched \<Rightarrow> bool" where
  "non_ok Rejected = False"
| "non_ok (Resolved r) = (\<not> ok r)"

fun is_error :: "log \<Rightarrow> bool" where
  "is_error (Error msg) = True"
| "is_error (Warn msg) = False"

subsection \<open>Names for what the loops build\<close>

text \<open>The object that both snapshot loops push for a snapshot.\<close>

definition member_entry :: "snapshot \<Rightarrow> string \<Rightarrow> activity" where
  "member_entry s userId = spread (snapshot.timestamp s) (read_member s userId)"

text \<open>The in-window activity list of a member, as the aggregator collects it.\<close>

definition in_window_activity ::
  "zone \<Rightarrow> int \<Rightarrow> int \<Rightarrow> 'a store_scheme \<Rightarrow> string \<Rightarrow> activity list" where
  "in_window_activity tza now days st userId =
     memberActivity (cutoffDate tza now days) userId (snapshots_or_empty st) []"

text \<open>The date text that the date loop adds for a timestamp, and the timestamps it adds one for.\<close>

definition date_of :: "zone \<Rightarrow> int \<Rightarrow> int option" where
  "date_of tza n = toLocaleDateString tza (TimeClip (n * 1000))"

definition positive_stamps :: "activity list \<Rightarrow> int set" where
  "positive_stamps acts = {n. n > 0 \<and> Some n \<in> last_action_timestamp ` set acts}"

subsection \<open>Sample data\<close>

text \<open>A host on UTC and one an hour ahead of it; entries as the tracker writes them.\<close>

definition utc :: zone where
  "utc t isUTC = 0"


text \<open>A host two hours ahead of UTC until 1699750000000 and one hour ahead from then on.\<close>

definition dst :: zone where
  "dst t isUTC = (if t < 1699750000000 then 7200000 else 3600000)"

definition entry :: "int \<Rightarrow> string \<Rightarrow> member_value" where
  "entry t rel =
     JObj \<lparr>last_action_timestamp = Some t, last_action_relative = Some rel,
           status = Some ''Okay''\<rparr>"

definition poll :: "int \<Rightarrow> (string \<rightharpoonup> member_value) \<Rightarrow> snapshot" where
  "poll t ms = \<lparr>snapshot.timestamp = t, members = ms\<rparr>"

definition roster :: "(string \<times> member) list" where
  "roster =
     [(''u1'', \<lparr>member.name = ''Ann'', member.level = 12, member.days_in_faction = 40\<rparr>),
      (''u2'', \<lparr>member.name = ''Bob'', member.level = 3, member.days_in_faction = 5\<rparr>),
      (''u3'', \<lparr>member.name = ''Cy'', member.level = 7, member.days_in_faction = 9\<rparr>)]"

text \<open>
  Three polls, read at 1700000000000: the first is older than seven days, the last two
  are not, and only the last is younger than one day. Bob's only entry is \<open>null\<close>, and
  the last poll has no entry for Cy.
\<close>

definition week_of_polls :: "snapshot list" where
  "week_of_polls =
     [poll 1699000000000 [''u1'' \<mapsto> entry 1698990000 ''2 hours ago'',
                          ''u3'' \<mapsto> entry 1698999000 ''16 minutes ago''],
      poll 1699900000000 [''u1'' \<mapsto> entry 1699890000 ''2 hours ago'', ''u2'' \<mapsto> JNull,
                          ''u3'' \<mapsto> entry 1699899000 ''17 minutes ago''],
      poll 1699990000000 [''u1'' \<mapsto> entry 1699989000 ''16 minutes ago'']]"

definition ann_summary :: summary_entry where
  "ann_summary =
     \<lparr>name = ''Ann'', level = 12, days_in_faction = 40,
      last_seen_timestamp = Some 1699989000, last_seen_relative = Some ''16 minutes ago'',
      days_active = 2, total_polls = 2\<rparr>"

definition cy_summary :: summary_entry where
  "cy_summary =
     \<lparr>name = ''Cy'', level = 7, days_in_faction = 9,
      last_seen_timestamp = Some 1699899000, last_seen_relative = Some ''17 minutes ago'',
      days_active = 1, total_polls = 1\<rparr>"

text \<open>
  A poll taken seven days and 37 minutes before 1700000000000: less than seven calendar
  days ago on the host whose clock was set back an hour in between, more on a host on UTC.
\<close>

definition autumn_poll :: "snapshot list" where
  "autumn_poll = [poll 1699393000000 [''u1'' \<mapsto> entry 1699392000 ''16 minutes ago'']]"

definition autumn_summary :: summary_entry where
  "autumn_summary =
     \<lparr>name = ''Ann'', level = 12, days_in_faction = 40,
      last_seen_timestamp = Some 1699392000, last_seen_relative = Some ''16 minutes ago'',
      days_active = 1, total_polls = 1\<rparr>"

text \<open>A poll stamped one minute after the reading 1700000000000 of the viewer's clock.\<close>

definition early_poll :: "snapshot list" where
  "early_poll = [poll 1700000060000 [''u1'' \<mapsto> entry 1699999000 ''17 minutes ago'']]"

text \<open>Two polls in the window; the later one holds \<open>null\<close> for Bob.\<close>

definition null_polls :: "snapshot list" where
  "null_polls =
     [poll 1699900000000 [''u2'' \<mapsto> entry 1699890000 ''2 hours ago''],
      poll 1699990000000 [''u2'' \<mapsto> JNull]]"

text \<open>Members named after properties of \<open>Object.prototype\<close>, and a poll that has an entry for one of them.\<close>

definition odd_roster :: "(string \<times> member) list" where
  "odd_roster =
     [(''toString'', \<lparr>member.name = ''Dee'', member.level = 1, member.days_in_faction = 1\<rparr>),
      (''__proto__'', \<lparr>member.name = ''Eve'', member.level = 2, member.days_in_faction = 2\<rparr>)]"

definition odd_poll :: "snapshot list" where
  "odd_poll = [poll 1699990000000 [''__proto__'' \<mapsto> entry 1699989000 ''16 minutes ago'']]"

definition odd_page :: page where
  "odd_page = (page_loaded 7)\<lparr>activityData := Some odd_poll, membersData := odd_roster\<rparr>"







text \<open>A poll with a known last action, then one without.\<close>

definition stale_polls :: "snapshot list" where
  "stale_polls =
     [poll 1699900000000 [''u1'' \<mapsto> entry 1699890000 ''2 hours ago''],
      poll 1699990000000 [''u1'' \<mapsto> entry 0 ''Unknown'']]"

text \<open>The earliest and the latest instant that a date can hold, but for one millisecond.\<close>

definition far_polls :: "snapshot list" where
  "far_polls = [poll (- 8639999999999999) Map.empty, poll 8640000000000000 Map.empty]"

definition ann_row :: row where
  "ann_row =
     \<lparr>row_userId = ''u1'', row_name = ''Ann'', row_last_seen = Some ''16 minutes ago'',
      row_days_active = 2, statusClass = ''status-warning'', statusText = ''Today''\<rparr>"

definition loaded :: "snapshot list \<Rightarrow> int \<Rightarrow> page" where
  "loaded snaps days = (page_loaded days)\<lparr>activityData := Some snaps, membersData := roster\<rparr>"

section \<open>Properties of the loops\<close>

lemma date_lt_Some: "date_lt (Some t) c = (case c of None \<Rightarrow> False | Some x \<Rightarrow> t < x)"
  by (simp add: date_lt_def split: option.splits)

lemma cutoff_is_window_start:
  assumes "is_date (window_start tza now days)"
  shows "cutoffDate tza now days = Some (window_start tza now days)"
  using assms
  by (simp add: cutoffDate_def setDate_getDate_minus_def TimeClip_def UTC_def LocalTime_def
        msPerDay_def window_start_def is_date_def Let_def)

lemma not_before_cutoff:
  assumes "is_date (window_start tza now days)"
  shows "(\<not> date_lt (Some t) (cutoffDate tza now days)) = (window_start tza now days \<le> t)"
  by (auto simp: cutoff_is_window_start [OF assms] date_lt_Some)

lemma truthy_read: "truthy (read_member s u) = holds_entry s u"
proof (cases "members s u")
  case None
  then show ?thesis by (simp add: read_member_def holds_entry_def)
next
  case (Some v)
  then show ?thesis by (cases v) (simp_all add: read_member_def holds_entry_def)
qed

lemma member_entry_timestamp:
  "last_action_timestamp (member_entry s u) = entry_timestamp (members s u)"
proof (cases "members s u")
  case None
  then show ?thesis by (simp add: member_entry_def read_member_def)
next
  case (Some v)
  then show ?thesis by (cases v) (simp_all add: member_entry_def read_member_def)
qed

lemma member_entry_relative:
  "last_action_relative (member_entry s u) = entry_relative (members s u)"
proof (cases "members s u")
  case None
  then show ?thesis by (simp add: member_entry_def read_member_def)
next
  case (Some v)
  then show ?thesis by (cases v) (simp_all add: member_entry_def read_member_def)
qed

lemma memberActivity_acc:
  "memberActivity c u xs acc = acc @ memberActivity c u xs []"
proof (induction xs arbitrary: acc)
  case Nil
  show ?case by simp
next
  case (Cons s xs)
  show ?case
    using Cons.IH [of "acc @ [spread (snapshot.timestamp s) (read_member s u)]"]
          Cons.IH [of "[spread (snapshot.timestamp s) (read_member s u)]"] Cons.IH [of acc]
    by simp
qed

lemma memberActivity_filter:
  "memberActivity c u xs [] =
     map (\<lambda>s. member_entry s u)
       (filter (\<lambda>s. \<not> date_lt (Some (snapshot.timestamp s)) c \<and> truthy (read_member s u)) xs)"
proof (induction xs)
  case Nil
  show ?case by simp
next
  case (Cons s xs)
  show ?case
    using Cons.IH memberActivity_acc [of c u xs "[spread (snapshot.timestamp s) (read_member s u)]"]
    by (simp add: member_entry_def)
qed

lemma memberActivity_window:
  assumes "is_date (window_start tza now days)"
  shows "memberActivity (cutoffDate tza now days) u xs [] =
     map (\<lambda>s. member_entry s u)
       (filter (\<lambda>s. window_start tza now days \<le> snapshot.timestamp s \<and> holds_entry s u) xs)"
  by (simp add: memberActivity_filter not_before_cutoff [OF assms] truthy_read)

lemma timelineActivity_eq: "timelineActivity c u xs acc = memberActivity c u xs acc"
  by (induction xs arbitrary: acc) simp_all

lemma set_add_set: "set (set_add x xs) = insert x (set xs)"
  by (auto simp: set_add_def)


lemma positive_stamps_Nil: "positive_stamps [] = {}"
  by (simp add: positive_stamps_def)

lemma positive_stamps_Cons:
  "positive_stamps (a # acts) =
     (case last_action_timestamp a of None \<Rightarrow> positive_stamps acts
      | Some n \<Rightarrow> if n > 0 then insert n (positive_stamps acts) else positive_stamps acts)"
  by (auto simp: positive_stamps_def split: option.splits)

lemma activeDates_set:
  "set (activeDates tza acts acc) = set acc \<union> date_of tza ` positive_stamps acts"
  by (induction acts arbitrary: acc)
     (auto simp: positive_stamps_Nil positive_stamps_Cons set_add_set date_of_def
           split: option.splits)


lemma activeDates_length_le:
  "length (activeDates tza acts acc) \<le> length acc + length acts"
proof (induction acts arbitrary: acc)
  case Nil
  show ?case by simp
next
  case (Cons a acts)
  have step: "length (set_add x acc) \<le> Suc (length acc)" for x :: "int option"
    by (simp add: set_add_def)
  show ?case
    using Cons.IH [of acc] Cons.IH [of "set_add (date_of tza (the (last_action_timestamp a))) acc"]
          step [of "date_of tza (the (last_action_timestamp a))"]
    by (auto simp: date_of_def split: option.splits)
qed


lemma update_keys_set: "fst ` set (AList.update k v al) = insert k (fst ` set al)"
  by (induction al) auto

lemma assign_keys:
  "fst ` set (assign k v al) = (if k = ''__proto__'' then fst ` set al else insert k (fst ` set al))"
  by (simp add: assign_def update_keys_set)

lemma assign_distinct: "distinct (map fst al) \<Longrightarrow> distinct (map fst (assign k v al))"
  by (simp add: assign_def distinct_update)

lemma assign_lookup:
  "map_of (assign k v al) u = (if u = k \<and> k \<noteq> ''__proto__'' then Some v else map_of al u)"
  by (simp add: assign_def update_conv')

lemma summary_loop_keys:
  "fst ` set (summary_loop tza c snaps ms summary) =
     fst ` set summary \<union>
     {u \<in> fst ` set ms. u \<noteq> ''__proto__'' \<and> memberActivity c u snaps [] \<noteq> []}"
proof (induction ms arbitrary: summary)
  case Nil
  show ?case by simp
next
  case (Cons p ms)
  obtain u m where p: "p = (u, m)" by (cases p)
  show ?case
    unfolding p using Cons.IH
    by (auto simp: Let_def assign_keys)
qed

lemma summary_loop_distinct:
  "distinct (map fst summary) \<Longrightarrow> distinct (map fst (summary_loop tza c snaps ms summary))"
proof (induction ms arbitrary: summary)
  case Nil
  then show ?case by simp
next
  case (Cons p ms)
  obtain u m where p: "p = (u, m)" by (cases p)
  show ?case
    unfolding p using Cons.prems by (auto simp: Let_def intro!: Cons.IH assign_distinct)
qed

lemma summary_loop_entry:
  assumes "map_of (summary_loop tza c snaps ms summary) u = Some e"
  shows "map_of summary u = Some e \<or>
         (memberActivity c u snaps [] \<noteq> [] \<and>
          last_seen_timestamp e = last_action_timestamp (last (memberActivity c u snaps [])) \<and>
          last_seen_relative e = last_action_relative (last (memberActivity c u snaps [])) \<and>
          days_active e = length (activeDates tza (memberActivity c u snaps []) []) \<and>
          total_polls e = length (memberActivity c u snaps []))"
  using assms
proof (induction ms arbitrary: summary)
  case Nil
  then show ?case by simp
next
  case (Cons p ms)
  obtain v m where p: "p = (v, m)" by (cases p)
  let ?acts = "memberActivity c v snaps []"
  show ?case
  proof (cases "?acts = []")
    case True
    with Cons.prems p have "map_of (summary_loop tza c snaps ms summary) u = Some e"
      by simp
    then show ?thesis by (rule Cons.IH)
  next
    case False
    let ?entry = "\<lparr>name = member.name m, level = member.level m,
                  days_in_faction = member.days_in_faction m,
                  last_seen_timestamp = last_action_timestamp (?acts ! (length ?acts - 1)),
                  last_seen_relative = last_action_relative (?acts ! (length ?acts - 1)),
                  days_active = length (activeDates tza ?acts []),
                  total_polls = length ?acts\<rparr>"
    from False Cons.prems p
    have "map_of (summary_loop tza c snaps ms (assign v ?entry summary)) u = Some e"
      by (simp add: Let_def)
    from Cons.IH [OF this] show ?thesis
    proof
      assume upd: "map_of (assign v ?entry summary) u = Some e"
      show ?thesis
      proof (cases "u = v \<and> v \<noteq> ''__proto__''")
        case True
        with upd have "e = ?entry" by (simp add: assign_lookup)
        with True False show ?thesis by (simp add: last_conv_nth)
      next
        case False
        with upd show ?thesis by (auto simp: assign_lookup)
      qed
    next
      assume "memberActivity c u snaps [] \<noteq> [] \<and>
          last_seen_timestamp e = last_action_timestamp (last (memberActivity c u snaps [])) \<and>
          last_seen_relative e = last_action_relative (last (memberActivity c u snaps [])) \<and>
          days_active e = length (activeDates tza (memberActivity c u snaps []) []) \<and>
          total_polls e = length (memberActivity c u snaps [])"
      then show ?thesis by simp
    qed
  qed
qed

text \<open>What the summary holds for a member: the facts every later property starts from.\<close>

lemma summary_entry_facts:
  assumes "(u, e) \<in> set (getActivitySummary tza now days st)"
  defines "acts \<equiv> memberActivity (cutoffDate tza now days) u (snapshots_or_empty st) []"
  shows "acts \<noteq> []"
    and "last_seen_timestamp e = last_action_timestamp (last acts)"
    and "last_seen_relative e = last_action_relative (last acts)"
    and "days_active e = length (activeDates tza acts [])"
    and "total_polls e = length acts"
proof -
  have "distinct (map fst (getActivitySummary tza now days st))"
    unfolding getActivitySummary_def by (rule summary_loop_distinct) simp
  with assms(1) have "map_of (getActivitySummary tza now days st) u = Some e"
    by simp
  then have "map_of (summary_loop tza (cutoffDate tza now days) (snapshots_or_empty st)
               (membersData st) []) u = Some e"
    by (simp add: getActivitySummary_def)
  from summary_loop_entry [OF this]
  show "acts \<noteq> []"
    and "last_seen_timestamp e = last_action_timestamp (last acts)"
    and "last_seen_relative e = last_action_relative (last acts)"
    and "days_active e = length (activeDates tza acts [])"
    and "total_polls e = length acts"
    by (simp_all add: acts_def)
qed

lemma summary_has_entry:
  assumes "userId \<in> fst ` set (membersData st)"
    and "userId \<noteq> ''__proto__''"
    and "in_window_activity tza now days st userId \<noteq> []"
  shows "\<exists>e. (userId, e) \<in> set (getActivitySummary tza now days st)"
proof -
  have "userId \<in> fst ` set (getActivitySummary tza now days st)"
    using assms by (simp add: getActivitySummary_def summary_loop_keys in_window_activity_def)
  then show ?thesis by auto
qed

lemma sorted_last_greatest:
  assumes "sorted (map f xs)" and "x \<in> set xs"
  shows "f x \<le> (f (last xs) :: int)"
  using assms
proof (induction xs)
  case Nil
  then show ?case by simp
next
  case (Cons y ys)
  show ?case
  proof (cases "ys = []")
    case True
    with Cons.prems show ?thesis by simp
  next
    case False
    then have "last ys \<in> set ys" by simp
    with Cons.prems Cons.IH False show ?thesis by auto
  qed
qed

text \<open>The equations that evaluate the sample data.\<close>

lemmas sample_defs =
  loaded_def page_loaded_def week_of_polls_def roster_def poll_def entry_def utc_def
  snapshots_or_empty_def cutoffDate_def setDate_getDate_minus_def TimeClip_def UTC_def
  LocalTime_def msPerDay_def date_lt_def read_member_def object_prototype_keys_def assign_def

lemmas notion_defs =
  window_start_def is_date_def mentions_def holds_entry_def in_closed_window_def
  seen_in_closed_window_def window_mentions_def last_mention_def last_mention_timestamp_def

lemmas run_defs =
  getActivitySummary_def sample_defs Let_def set_add_def toLocaleDateString_def

section \<open>Properties of the aggregator\<close>

text \<open>
  C7. The timeline list of \<open>showActivity\<close> is the in-window activity list that the
  aggregator computes for the same member, window size and clock reading, reversed
  (most recent first); the timeline panel shows one entry for each element of that list.
\<close>

theorem timeline_reverses_member_activity:
  "showActivity_list tza now userId pg =
     rev (memberActivity (cutoffDate tza now (timeRange pg)) userId (snapshots_or_empty pg) [])
   \<and> timelinePanel (showActivity tza now userId nm pg) =
       Some (if showActivity_list tza now userId pg = [] then NoActivity ''No activity data''
             else Entries (map render_entry
               (rev (memberActivity (cutoffDate tza now (timeRange pg)) userId
                  (snapshots_or_empty pg) []))))"
  by (simp add: showActivity_list_def showActivity_def cutoffDate_def timelineActivity_eq Let_def)

theorem timeline_reverses_member_activity_witness:
  "showActivity_list utc 1700000000000 ''u1'' (loaded week_of_polls 7) =
     rev (memberActivity (cutoffDate utc 1700000000000 7) ''u1'' week_of_polls [])
   \<and> map activity.timestamp (showActivity_list utc 1700000000000 ''u1'' (loaded week_of_polls 7)) =
       [1699990000000, 1699900000000]"
  using timeline_reverses_member_activity [of utc 1700000000000 "''u1''" "loaded week_of_polls 7"]
  by (simp add: sample_defs)

text \<open>
  C1, as stated: a member-id is in the summary exactly when it is in the members dataset
  and some snapshot with a timestamp between the cutoff and now contains it. Five inputs
  where that fails: a poll stamped after the viewer's clock reading is counted; a poll
  that maps the id to \<open>null\<close> is not; an id that names an inherited property is found
  in a poll that does not contain it; the id \<open>__proto__\<close> never enters the summary; and
  for a day count so far below zero that the cutoff is no date, every poll is counted.
\<close>

theorem summary_closed_window_counterexample:
  "''u1'' \<in> fst ` set (getActivitySummary utc 1700000000000 7 (loaded early_poll 7))
   \<and> \<not> seen_in_closed_window utc 1700000000000 7 (loaded early_poll 7) ''u1''
   \<and> seen_in_closed_window utc 1700000000000 7 (loaded week_of_polls 7) ''u2''
   \<and> ''u2'' \<notin> fst ` set (getActivitySummary utc 1700000000000 7 (loaded week_of_polls 7))
   \<and> ''toString'' \<in> fst ` set (getActivitySummary utc 1700000000000 7 odd_page)
   \<and> \<not> seen_in_closed_window utc 1700000000000 7 odd_page ''toString''
   \<and> seen_in_closed_window utc 1700000000000 7 odd_page ''__proto__''
   \<and> ''__proto__'' \<notin> fst ` set (getActivitySummary utc 1700000000000 7 odd_page)
   \<and> \<not> is_date (window_start utc 1700000000000 (- 200000000))
   \<and> ''u1'' \<in> fst ` set (getActivitySummary utc 1700000000000 (- 200000000)
                          (loaded week_of_polls (- 200000000)))
   \<and> \<not> seen_in_closed_window utc 1700000000000 (- 200000000)
         (loaded week_of_polls (- 200000000)) ''u1''"
proof -
  have far: "\<not> is_date (window_start utc 1700000000000 (- 200000000))
      \<and> ''u1'' \<in> fst ` set (getActivitySummary utc 1700000000000 (- 200000000)
                          (loaded week_of_polls (- 200000000)))
      \<and> \<not> seen_in_closed_window utc 1700000000000 (- 200000000)
         (loaded week_of_polls (- 200000000)) ''u1''"
    by (simp add: run_defs notion_defs)
  have early: "''u1'' \<in> fst ` set (getActivitySummary utc 1700000000000 7 (loaded early_poll 7))
      \<and> \<not> seen_in_closed_window utc 1700000000000 7 (loaded early_poll 7) ''u1''"
    by (simp add: getActivitySummary_def early_poll_def sample_defs notion_defs Let_def
          set_add_def toLocaleDateString_def)
  have null: "seen_in_closed_window utc 1700000000000 7 (loaded week_of_polls 7) ''u2''
      \<and> ''u2'' \<notin> fst ` set (getActivitySummary utc 1700000000000 7 (loaded week_of_polls 7))"
    by (simp add: run_defs notion_defs)
  have odd: "getActivitySummary utc 1700000000000 7 odd_page =
      [(''toString'', \<lparr>name = ''Dee'', level = 1, days_in_faction = 1,
                       last_seen_timestamp = None, last_seen_relative = None,
                       days_active = 0, total_polls = 1\<rparr>)]"
    by (simp add: getActivitySummary_def odd_page_def odd_poll_def odd_roster_def sample_defs Let_def)
  have inherited: "\<not> seen_in_closed_window utc 1700000000000 7 odd_page ''toString''
      \<and> seen_in_closed_window utc 1700000000000 7 odd_page ''__proto__''"
    by (simp add: odd_page_def odd_poll_def odd_roster_def sample_defs notion_defs)
  from early null inherited far show ?thesis
    by (simp add: odd)
qed

text \<open>
  C1, amended: for a window size whose cutoff is a date, a member-id is in the summary
  exactly when it is in the members dataset, is not \<open>__proto__\<close>, and some snapshot that is
  not earlier than the cutoff \<open>now - d days\<close> (nothing bounds the window at now) holds an
  entry for it: a value that is not falsy, or an inherited property where the snapshot has
  no such key. A member without such a snapshot is left out.
\<close>

theorem summary_keys:
  assumes "is_date (window_start tza now days)"
  shows "userId \<in> fst ` set (getActivitySummary tza now days st) \<longleftrightarrow>
     userId \<in> fst ` set (membersData st) \<and> userId \<noteq> ''__proto__'' \<and>
     (\<exists>s \<in> set (snapshots_or_empty st).
        window_start tza now days \<le> snapshot.timestamp s \<and> holds_entry s userId)"
proof -
  have "memberActivity (cutoffDate tza now days) userId (snapshots_or_empty st) [] \<noteq> [] \<longleftrightarrow>
        (\<exists>s \<in> set (snapshots_or_empty st).
           window_start tza now days \<le> snapshot.timestamp s \<and> holds_entry s userId)"
    by (simp add: memberActivity_window [OF assms] filter_empty_conv)
  then show ?thesis
    by (simp add: getActivitySummary_def summary_loop_keys)
qed

theorem summary_keys_witness:
  "is_date (window_start utc 1700000000000 7) \<and> is_date (window_start utc 1700000000000 1)
   \<and> is_date (window_start dst 1700000000000 7)
   \<and> map fst (getActivitySummary utc 1700000000000 7 (loaded week_of_polls 7)) = [''u1'', ''u3'']
   \<and> map fst (getActivitySummary utc 1700000000000 1 (loaded week_of_polls 1)) = [''u1'']
   \<and> map fst (getActivitySummary utc 1700000000000 7 (loaded autumn_poll 7)) = []
   \<and> map fst (getActivitySummary dst 1700000000000 7 (loaded autumn_poll 7)) = [''u1'']
   \<and> (\<exists>s \<in> set (snapshots_or_empty (loaded week_of_polls 7)).
         window_start utc 1700000000000 7 \<le> snapshot.timestamp s \<and> holds_entry s ''u3'')
   \<and> \<not> (\<exists>s \<in> set (snapshots_or_empty (loaded week_of_polls 7)).
         window_start utc 1700000000000 7 \<le> snapshot.timestamp s \<and> holds_entry s ''u2'')
   \<and> \<not> (\<exists>s \<in> set (snapshots_or_empty (loaded week_of_polls 1)).
         window_start utc 1700000000000 1 \<le> snapshot.timestamp s \<and> holds_entry s ''u3'')
   \<and> \<not> (\<exists>s \<in> set (snapshots_or_empty (loaded autumn_poll 7)).
         window_start utc 1700000000000 7 \<le> snapshot.timestamp s \<and> holds_entry s ''u1'')
   \<and> (\<exists>s \<in> set (snapshots_or_empty (loaded autumn_poll 7)).
         window_start dst 1700000000000 7 \<le> snapshot.timestamp s \<and> holds_entry s ''u1'')"
proof -
  have week: "is_date (window_start utc 1700000000000 7)"
    and day: "is_date (window_start utc 1700000000000 1)"
    and autumn: "is_date (window_start dst 1700000000000 7)"
    by (simp_all add: notion_defs utc_def dst_def)
  have run_week: "map fst (getActivitySummary utc 1700000000000 7 (loaded week_of_polls 7)) =
      [''u1'', ''u3'']"
    and run_day: "map fst (getActivitySummary utc 1700000000000 1 (loaded week_of_polls 1)) = [''u1'']"
    and run_utc: "map fst (getActivitySummary utc 1700000000000 7 (loaded autumn_poll 7)) = []"
    and run_dst: "map fst (getActivitySummary dst 1700000000000 7 (loaded autumn_poll 7)) = [''u1'']"
    by (simp_all add: run_defs autumn_poll_def dst_def)
  have in_week: "''u3'' \<in> fst ` set (getActivitySummary utc 1700000000000 7 (loaded week_of_polls 7))"
    and null_week: "''u2'' \<notin> fst ` set (getActivitySummary utc 1700000000000 7 (loaded week_of_polls 7))"
    and out_day: "''u3'' \<notin> fst ` set (getActivitySummary utc 1700000000000 1 (loaded week_of_polls 1))"
    and out_utc: "''u1'' \<notin> fst ` set (getActivitySummary utc 1700000000000 7 (loaded autumn_poll 7))"
    and in_dst: "''u1'' \<in> fst ` set (getActivitySummary dst 1700000000000 7 (loaded autumn_poll 7))"
    using run_week run_day run_utc run_dst by (simp_all flip: set_map)
  show ?thesis
    using week day autumn run_week run_day run_utc run_dst
      in_week [unfolded summary_keys [OF week]]
      null_week [unfolded summary_keys [OF week]]
      out_day [unfolded summary_keys [OF day]]
      out_utc [unfolded summary_keys [OF week]]
      in_dst [unfolded summary_keys [OF autumn]]
    by (simp add: loaded_def page_loaded_def roster_def)
qed

text \<open>
  C2, as stated: \<open>total_polls\<close> is the number of in-window snapshots whose members
  mapping contains the member-id. Of two in-window polls that contain Bob's id, the one
  that maps it to \<open>null\<close> is not counted; a poll that does not contain the id
  \<open>toString\<close> is counted for it; and for a day count so far below zero that the cutoff is
  no date, the polls before the cutoff are counted.
\<close>

theorem total_polls_mentions_counterexample:
  "map fst (getActivitySummary utc 1700000000000 7 (loaded null_polls 7)) = [''u2'']
   \<and> map (total_polls \<circ> snd) (getActivitySummary utc 1700000000000 7 (loaded null_polls 7)) = [1]
   \<and> length (window_mentions utc 1700000000000 7 (loaded null_polls 7) ''u2'') = 2
   \<and> map fst (getActivitySummary utc 1700000000000 7 odd_page) = [''toString'']
   \<and> map (total_polls \<circ> snd) (getActivitySummary utc 1700000000000 7 odd_page) = [1]
   \<and> length (window_mentions utc 1700000000000 7 odd_page ''toString'') = 0
   \<and> map fst (getActivitySummary utc 1700000000000 (- 200000000)
         (loaded week_of_polls (- 200000000))) = [''u1'', ''u3'']
   \<and> map (total_polls \<circ> snd) (getActivitySummary utc 1700000000000 (- 200000000)
         (loaded week_of_polls (- 200000000))) = [3, 2]
   \<and> length (window_mentions utc 1700000000000 (- 200000000)
         (loaded week_of_polls (- 200000000)) ''u1'') = 0"
  by (simp add: run_defs null_polls_def odd_page_def odd_poll_def odd_roster_def notion_defs)

text \<open>
  C2, amended: for a window size whose cutoff is a date and a member in the summary,
  \<open>total_polls\<close> is the number of snapshots not earlier than the cutoff \<open>now - d days\<close>
  that hold an entry for the member (a value that is not falsy, or an inherited property
  where the snapshot has no such key), and \<open>days_active\<close> is at most \<open>total_polls\<close>.
\<close>

theorem total_polls_counts_window:
  assumes "is_date (window_start tza now days)"
    and "(userId, e) \<in> set (getActivitySummary tza now days st)"
  shows "total_polls e =
           length (filter (\<lambda>s. window_start tza now days \<le> snapshot.timestamp s \<and>
                               holds_entry s userId)
             (snapshots_or_empty st))
         \<and> days_active e \<le> total_polls e"
proof -
  let ?acts = "memberActivity (cutoffDate tza now days) userId (snapshots_or_empty st) []"
  have polls: "total_polls e = length ?acts"
    and active: "days_active e = length (activeDates tza ?acts [])"
    using summary_entry_facts [OF assms(2)] by simp_all
  have "length (activeDates tza ?acts []) \<le> length ?acts"
    using activeDates_length_le [of tza ?acts "[]"] by simp
  with polls active show ?thesis
    by (simp add: memberActivity_window [OF assms(1)])
qed

theorem total_polls_counts_window_witness:
  "is_date (window_start utc 1700000000000 7) \<and> is_date (window_start utc 1700000000000 1)
   \<and> is_date (window_start dst 1700000000000 7)
   \<and> getActivitySummary utc 1700000000000 7 (loaded week_of_polls 7) =
       [(''u1'', ann_summary), (''u3'', cy_summary)]
   \<and> total_polls ann_summary = 2 \<and> total_polls cy_summary = 1
   \<and> days_active cy_summary \<le> total_polls cy_summary
   \<and> length (filter (\<lambda>s. window_start utc 1700000000000 7 \<le> snapshot.timestamp s \<and>
                           holds_entry s ''u1'')
         (snapshots_or_empty (loaded week_of_polls 7))) = 2
   \<and> length (filter (\<lambda>s. window_start utc 1700000000000 7 \<le> snapshot.timestamp s \<and>
                           holds_entry s ''u3'')
         (snapshots_or_empty (loaded week_of_polls 7))) = 1
   \<and> getActivitySummary utc 1700000000000 1 (loaded week_of_polls 1) =
       [(''u1'', ann_summary\<lparr>days_active := 1, total_polls := 1\<rparr>)]
   \<and> length (filter (\<lambda>s. window_start utc 1700000000000 1 \<le> snapshot.timestamp s \<and>
                           holds_entry s ''u1'')
         (snapshots_or_empty (loaded week_of_polls 1))) = 1
   \<and> getActivitySummary dst 1700000000000 7 (loaded autumn_poll 7) = [(''u1'', autumn_summary)]
   \<and> length (filter (\<lambda>s. window_start dst 1700000000000 7 \<le> snapshot.timestamp s \<and>
                           holds_entry s ''u1'')
         (snapshots_or_empty (loaded autumn_poll 7))) = 1"
proof -
  have week: "is_date (window_start utc 1700000000000 7)"
    and day: "is_date (window_start utc 1700000000000 1)"
    and autumn: "is_date (window_start dst 1700000000000 7)"
    by (simp_all add: notion_defs utc_def dst_def)
  have run_week: "getActivitySummary utc 1700000000000 7 (loaded week_of_polls 7) =
      [(''u1'', ann_summary), (''u3'', cy_summary)]"
    by (simp add: run_defs ann_summary_def cy_summary_def)
  have run_day: "getActivitySummary utc 1700000000000 1 (loaded week_of_polls 1) =
      [(''u1'', ann_summary\<lparr>days_active := 1, total_polls := 1\<rparr>)]"
    by (simp add: run_defs ann_summary_def)
  have run_dst: "getActivitySummary dst 1700000000000 7 (loaded autumn_poll 7) =
      [(''u1'', autumn_summary)]"
    by (simp add: run_defs autumn_poll_def autumn_summary_def dst_def)
  have ann: "(''u1'', ann_summary) \<in>
      set (getActivitySummary utc 1700000000000 7 (loaded week_of_polls 7))"
    and cy: "(''u3'', cy_summary) \<in>
      set (getActivitySummary utc 1700000000000 7 (loaded week_of_polls 7))"
    by (simp_all add: run_week)
  have ann_day: "(''u1'', ann_summary\<lparr>days_active := 1, total_polls := 1\<rparr>) \<in>
      set (getActivitySummary utc 1700000000000 1 (loaded week_of_polls 1))"
    by (simp add: run_day)
  have ann_dst: "(''u1'', autumn_summary) \<in>
      set (getActivitySummary dst 1700000000000 7 (loaded autumn_poll 7))"
    by (simp add: run_dst)
  show ?thesis
    using week day autumn run_week run_day run_dst
      total_polls_counts_window [OF week ann] total_polls_counts_window [OF week cy]
      total_polls_counts_window [OF day ann_day] total_polls_counts_window [OF autumn ann_dst]
    by (simp add: cy_summary_def ann_summary_def autumn_summary_def)
qed

text \<open>
  C3, as stated: with the snapshots ordered oldest first, \<open>last_seen_timestamp\<close> is the
  \<open>last_action_timestamp\<close> of the chronologically last in-window snapshot containing the
  member. The last in-window poll that contains Bob's id maps it to \<open>null\<close> and has no
  such timestamp; the summary takes the one of the poll before. The id \<open>toString\<close>
  has a summary entry although no poll contains it; and so has Ann for a day count so far
  below zero that the cutoff is no date and all polls are before it.
\<close>

theorem last_seen_mention_counterexample:
  "sorted (map snapshot.timestamp (snapshots_or_empty (loaded null_polls 7)))
   \<and> map fst (getActivitySummary utc 1700000000000 7 (loaded null_polls 7)) = [''u2'']
   \<and> map (last_seen_timestamp \<circ> snd)
       (getActivitySummary utc 1700000000000 7 (loaded null_polls 7)) = [Some 1699890000]
   \<and> map_option snapshot.timestamp (last_mention utc 1700000000000 7 (loaded null_polls 7) ''u2'') =
       Some 1699990000000
   \<and> last_mention_timestamp utc 1700000000000 7 (loaded null_polls 7) ''u2'' = None
   \<and> sorted (map snapshot.timestamp (snapshots_or_empty odd_page))
   \<and> map fst (getActivitySummary utc 1700000000000 7 odd_page) = [''toString'']
   \<and> last_mention utc 1700000000000 7 odd_page ''toString'' = None
   \<and> sorted (map snapshot.timestamp (snapshots_or_empty (loaded week_of_polls (- 200000000))))
   \<and> map fst (getActivitySummary utc 1700000000000 (- 200000000)
         (loaded week_of_polls (- 200000000))) = [''u1'', ''u3'']
   \<and> last_mention utc 1700000000000 (- 200000000)
         (loaded week_of_polls (- 200000000)) ''u1'' = None"
  by (simp add: run_defs null_polls_def odd_page_def odd_poll_def odd_roster_def notion_defs)

text \<open>
  C3, amended: with the snapshots ordered oldest first and a cutoff that is a date, the
  \<open>last_seen\<close> fields of a member's summary entry are the \<open>last_action\<close> fields of a
  snapshot that is not earlier than the cutoff, holds an entry for the member (a value
  that is not falsy, or an inherited property where the snapshot has no such key) and is
  at least as late as every other such snapshot.
\<close>

theorem last_seen_from_latest_poll:
  assumes "sorted (map snapshot.timestamp (snapshots_or_empty st))"
    and "is_date (window_start tza now days)"
    and "(userId, e) \<in> set (getActivitySummary tza now days st)"
  shows "\<exists>s \<in> set (snapshots_or_empty st).
           window_start tza now days \<le> snapshot.timestamp s \<and> holds_entry s userId \<and>
           (\<forall>s' \<in> set (snapshots_or_empty st).
              window_start tza now days \<le> snapshot.timestamp s' \<and> holds_entry s' userId \<longrightarrow>
              snapshot.timestamp s' \<le> snapshot.timestamp s) \<and>
           last_seen_timestamp e = entry_timestamp (members s userId) \<and>
           last_seen_relative e = entry_relative (members s userId)"
proof -
  let ?P = "\<lambda>s. window_start tza now days \<le> snapshot.timestamp s \<and> holds_entry s userId"
  let ?kept = "filter ?P (snapshots_or_empty st)"
  let ?acts = "memberActivity (cutoffDate tza now days) userId (snapshots_or_empty st) []"
  have acts: "?acts = map (\<lambda>s. member_entry s userId) ?kept"
    by (simp add: memberActivity_window [OF assms(2)])
  from summary_entry_facts [OF assms(3)]
  have ne: "?acts \<noteq> []"
    and ts: "last_seen_timestamp e = last_action_timestamp (last ?acts)"
    and rel: "last_seen_relative e = last_action_relative (last ?acts)"
    by simp_all
  from ne acts have kept_ne: "?kept \<noteq> []" by simp
  then have last_in: "last ?kept \<in> set ?kept" by (rule last_in_set)
  have last_acts: "last ?acts = member_entry (last ?kept) userId"
    using kept_ne by (simp add: acts last_map)
  have "sorted (map snapshot.timestamp ?kept)"
    using assms(1) by (rule sorted_filter)
  then have latest: "snapshot.timestamp s' \<le> snapshot.timestamp (last ?kept)" if "s' \<in> set ?kept" for s'
    using that by (rule sorted_last_greatest)
  show ?thesis
  proof (rule bexI [of _ "last ?kept"])
    show "last ?kept \<in> set (snapshots_or_empty st)"
      using last_in by simp
    show "window_start tza now days \<le> snapshot.timestamp (last ?kept) \<and>
          holds_entry (last ?kept) userId \<and>
          (\<forall>s' \<in> set (snapshots_or_empty st).
              window_start tza now days \<le> snapshot.timestamp s' \<and> holds_entry s' userId \<longrightarrow>
              snapshot.timestamp s' \<le> snapshot.timestamp (last ?kept)) \<and>
          last_seen_timestamp e = entry_timestamp (members (last ?kept) userId) \<and>
          last_seen_relative e = entry_relative (members (last ?kept) userId)"
      using last_in latest ts rel last_acts
      by (simp add: member_entry_timestamp member_entry_relative)
  qed
qed

theorem last_seen_from_latest_poll_witness:
  "sorted (map snapshot.timestamp (snapshots_or_empty (loaded week_of_polls 7)))
   \<and> is_date (window_start utc 1700000000000 7) \<and> is_date (window_start dst 1700000000000 7)
   \<and> getActivitySummary utc 1700000000000 7 (loaded week_of_polls 7) =
       [(''u1'', ann_summary), (''u3'', cy_summary)]
   \<and> (\<exists>s \<in> set (snapshots_or_empty (loaded week_of_polls 7)).
         snapshot.timestamp s = 1699900000000 \<and>
         last_seen_timestamp cy_summary = entry_timestamp (members s ''u3'') \<and>
         last_seen_relative cy_summary = entry_relative (members s ''u3''))
   \<and> getActivitySummary dst 1700000000000 7 (loaded autumn_poll 7) = [(''u1'', autumn_summary)]
   \<and> (\<exists>s \<in> set (snapshots_or_empty (loaded autumn_poll 7)).
         window_start dst 1700000000000 7 \<le> snapshot.timestamp s \<and>
         last_seen_timestamp autumn_summary = entry_timestamp (members s ''u1''))"
proof -
  have ordered: "sorted (map snapshot.timestamp (snapshots_or_empty (loaded week_of_polls 7)))"
    and ordered_autumn: "sorted (map snapshot.timestamp (snapshots_or_empty (loaded autumn_poll 7)))"
    by (simp_all add: sample_defs autumn_poll_def)
  have week: "is_date (window_start utc 1700000000000 7)"
    and autumn: "is_date (window_start dst 1700000000000 7)"
    by (simp_all add: notion_defs utc_def dst_def)
  have run_week: "getActivitySummary utc 1700000000000 7 (loaded week_of_polls 7) =
      [(''u1'', ann_summary), (''u3'', cy_summary)]"
    by (simp add: run_defs ann_summary_def cy_summary_def)
  have run_dst: "getActivitySummary dst 1700000000000 7 (loaded autumn_poll 7) =
      [(''u1'', autumn_summary)]"
    by (simp add: run_defs autumn_poll_def autumn_summary_def dst_def)
  have member: "(''u3'', cy_summary) \<in>
      set (getActivitySummary utc 1700000000000 7 (loaded week_of_polls 7))"
    by (simp add: run_week)
  have member_dst: "(''u1'', autumn_summary) \<in>
      set (getActivitySummary dst 1700000000000 7 (loaded autumn_poll 7))"
    by (simp add: run_dst)
  have latest: "\<exists>s \<in> set (snapshots_or_empty (loaded week_of_polls 7)).
         snapshot.timestamp s = 1699900000000 \<and>
         last_seen_timestamp cy_summary = entry_timestamp (members s ''u3'') \<and>
         last_seen_relative cy_summary = entry_relative (members s ''u3'')"
    using last_seen_from_latest_poll [OF ordered week member]
    by (simp add: loaded_def page_loaded_def week_of_polls_def poll_def entry_def utc_def
          snapshots_or_empty_def object_prototype_keys_def notion_defs cy_summary_def)
  have latest_dst: "\<exists>s \<in> set (snapshots_or_empty (loaded autumn_poll 7)).
         window_start dst 1700000000000 7 \<le> snapshot.timestamp s \<and>
         last_seen_timestamp autumn_summary = entry_timestamp (members s ''u1'')"
    using last_seen_from_latest_poll [OF ordered_autumn autumn member_dst]
    by blast
  from ordered week autumn run_week run_dst latest latest_dst show ?thesis
    by blast
qed





section \<open>Properties of the renderer\<close>

lemma insert_sorted_set: "set (insert_sorted x ys) = insert x (set ys)"
  by (induction ys) auto

lemma fold_insert_sorted_set: "set (fold insert_sorted xs acc) = set xs \<union> set acc"
  by (induction xs arbitrary: acc) (auto simp: insert_sorted_set)

lemma sort_entries_set: "set (sort_entries xs) = set xs"
  by (simp add: sort_entries_def fold_insert_sorted_set)

lemma render_row_label:
  "statusText (render_row now e) =
     (case last_seen_timestamp (snd e) of
        None \<Rightarrow> ''Offline''
      | Some t \<Rightarrow>
          if real_of_int (now - t * 1000) / 60000 < 60 then ''Online''
          else if real_of_int (now - t * 1000) / 60000 < 1440 then ''Today''
          else ''Offline'')"
  by (simp add: render_row_def minutesAgo_def num_lt_def Let_def split: option.splits)

text \<open>
  C5. Every row of the member table belongs to a summary entry, and its presence label
  is Online, Today or Offline according to the minutes elapsed since the entry's
  \<open>last_seen_timestamp\<close>: Online below 60, Today from 60 and below 1440, Offline from
  1440 on. An entry without a timestamp has no elapsed time and is shown Offline.
\<close>

theorem presence_by_elapsed_minutes:
  assumes "membersTable (renderMembers now summary pg) = Some (Rows rows)"
    and "r \<in> set rows"
  shows "\<exists>e \<in> set summary. row_userId r = fst e \<and>
           (case last_seen_timestamp (snd e) of
              None \<Rightarrow> statusText r = ''Offline''
            | Some t \<Rightarrow>
                (statusText r = ''Online'' \<longleftrightarrow> real_of_int (now - t * 1000) / 60000 < 60) \<and>
                (statusText r = ''Today'' \<longleftrightarrow>
                   60 \<le> real_of_int (now - t * 1000) / 60000 \<and>
                   real_of_int (now - t * 1000) / 60000 < 1440) \<and>
                (statusText r = ''Offline'' \<longleftrightarrow> 1440 \<le> real_of_int (now - t * 1000) / 60000))"
proof -
  from assms(1) have "rows = map (render_row now) (sort_entries summary)"
    by (simp add: renderMembers_def Let_def split: if_splits)
  with assms(2) obtain e where e: "e \<in> set summary" and r: "r = render_row now e"
    by (auto simp: sort_entries_set)
  have id: "row_userId r = fst e"
    by (simp add: r render_row_def Let_def)
  have label: "case last_seen_timestamp (snd e) of
              None \<Rightarrow> statusText r = ''Offline''
            | Some t \<Rightarrow>
                (statusText r = ''Online'' \<longleftrightarrow> real_of_int (now - t * 1000) / 60000 < 60) \<and>
                (statusText r = ''Today'' \<longleftrightarrow>
                   60 \<le> real_of_int (now - t * 1000) / 60000 \<and>
                   real_of_int (now - t * 1000) / 60000 < 1440) \<and>
                (statusText r = ''Offline'' \<longleftrightarrow> 1440 \<le> real_of_int (now - t * 1000) / 60000)"
    unfolding r render_row_label by (simp split: option.splits)
  from e id label show ?thesis by blast
qed

theorem presence_by_elapsed_minutes_witness:
  "membersTable (renderMembers 1700000000000 [(''u1'', ann_summary)] (loaded week_of_polls 7)) =
     Some (Rows [ann_row])
   \<and> statusText ann_row = ''Today''
   \<and> (60::real) \<le> real_of_int (1700000000000 - 1699989000 * 1000) / 60000
   \<and> real_of_int (1700000000000 - 1699989000 * 1000) / 60000 < (1440::real)"
proof -
  have table: "membersTable (renderMembers 1700000000000 [(''u1'', ann_summary)]
      (loaded week_of_polls 7)) = Some (Rows [ann_row])"
    by (simp add: renderMembers_def sort_entries_def render_row_def minutesAgo_def num_lt_def
          ann_summary_def ann_row_def Let_def)
  have row: "ann_row \<in> set [ann_row]" by simp
  from presence_by_elapsed_minutes [OF table row]
  show ?thesis
    using table by (simp add: ann_summary_def ann_row_def)
qed

lemma double_of_exact: "\<bar>x\<bar> \<le> 9007199254740992 \<Longrightarrow> double_of x = x"
  by (simp add: double_of_def)

lemma renderStats_cards:
  assumes "snaps \<noteq> []"
  shows "renderStats now summary snaps pg =
     Normal (pg\<lparr>summaryPanel := Some (Cards
                \<lparr>total_members = length summary,
                 active24h = length (filter (\<lambda>(userId, m).
                        num_lt (minutesAgo now (last_seen_timestamp m)) 1440) summary),
                 loggedDays =
                   \<lfloor>real_of_int (double_of (snapshot.timestamp (last snaps) -
                                             snapshot.timestamp (hd snaps))) / 86400000\<rfloor> + 1,
                 lastPoll = snapshot.timestamp (last snaps)\<rparr>),
              lastUpdated := Some (LastPollTime (snapshot.timestamp (last snaps)))\<rparr>)"
  using assms by (simp add: renderStats_def Let_def last_conv_nth hd_conv_nth)

lemma renderDashboard_data_logged:
  assumes "snapshots_or_empty pg \<noteq> []"
  shows "data_logged (renderDashboard tza now pg) =
     Some (\<lfloor>real_of_int (double_of (snapshot.timestamp (last (snapshots_or_empty pg)) -
                                     snapshot.timestamp (hd (snapshots_or_empty pg)))) /
             86400000\<rfloor> + 1)"
  using assms
  by (simp add: renderDashboard_def renderStats_cards renderMembers_def data_logged_def Let_def)

text \<open>
  C8, as stated: with at least one snapshot loaded, the Data Logged card shows
  \<open>floor((last - first) / 1 day) + 1\<close>. For the earliest and the latest date but one
  millisecond, the difference of the two dates is odd and beyond \<open>2^53\<close>; the
  subtraction rounds it up to the next double, a whole number of days, and the card shows
  one day more.
\<close>

theorem data_logged_far_dates_counterexample:
  "is_date (snapshot.timestamp (hd far_polls)) \<and> is_date (snapshot.timestamp (last far_polls))
   \<and> data_logged (renderDashboard utc 1700000000000 (loaded far_polls 7)) = Some 200000001
   \<and> day_span far_polls = 200000000"
proof -
  have snaps: "snapshots_or_empty (loaded far_polls 7) = far_polls"
    by (simp add: loaded_def snapshots_or_empty_def)
  have "far_polls \<noteq> []"
    by (simp add: far_polls_def)
  then have "data_logged (renderDashboard utc 1700000000000 (loaded far_polls 7)) =
      Some (\<lfloor>real_of_int (double_of (snapshot.timestamp (last far_polls) -
                                      snapshot.timestamp (hd far_polls))) / 86400000\<rfloor> + 1)"
    using renderDashboard_data_logged [of "loaded far_polls 7" utc 1700000000000]
    by (simp add: snaps)
  then show ?thesis
    by (simp add: far_polls_def poll_def double_of_def day_span_def is_date_def)
qed

text \<open>
  C8, amended: with at least one snapshot loaded whose first and last timestamps are at
  most \<open>2^53\<close> milliseconds apart, the dashboard renders, and its Data Logged card shows
  \<open>floor((last - first) / 1 day) + 1\<close> for the first and the last snapshot of the whole
  sequence, whatever day count is selected.
\<close>

theorem data_logged_spans_all_snapshots:
  assumes "snapshots_or_empty pg \<noteq> []"
    and "\<bar>snapshot.timestamp (last (snapshots_or_empty pg)) -
          snapshot.timestamp (hd (snapshots_or_empty pg))\<bar> \<le> 9007199254740992"
  shows "data_logged (renderDashboard tza now (pg\<lparr>timeRange := days\<rparr>)) =
           Some (day_span (snapshots_or_empty pg))"
proof -
  let ?pg = "pg\<lparr>timeRange := days\<rparr>"
  have same: "snapshots_or_empty ?pg = snapshots_or_empty pg"
    by (simp add: snapshots_or_empty_def)
  with assms(1) have "snapshots_or_empty ?pg \<noteq> []" by simp
  from renderDashboard_data_logged [OF this, of tza now]
  show ?thesis
    by (simp add: same double_of_exact [OF assms(2)] day_span_def)
qed

theorem data_logged_spans_all_snapshots_witness:
  "snapshots_or_empty (loaded week_of_polls 30) \<noteq> []
   \<and> \<bar>snapshot.timestamp (last (snapshots_or_empty (loaded week_of_polls 30))) -
       snapshot.timestamp (hd (snapshots_or_empty (loaded week_of_polls 30)))\<bar> = 990000000
   \<and> data_logged (renderDashboard utc 1700000000000 ((loaded week_of_polls 30)\<lparr>timeRange := 1\<rparr>)) =
       Some 12
   \<and> data_logged (renderDashboard utc 1700000000000 ((loaded week_of_polls 30)\<lparr>timeRange := 365\<rparr>)) =
       Some 12"
proof -
  have loaded: "snapshots_or_empty (loaded week_of_polls 30) \<noteq> []"
    by (simp add: sample_defs)
  have span: "\<bar>snapshot.timestamp (last (snapshots_or_empty (loaded week_of_polls 30))) -
       snapshot.timestamp (hd (snapshots_or_empty (loaded week_of_polls 30)))\<bar> = 990000000"
    by (simp add: sample_defs)
  then have near: "\<bar>snapshot.timestamp (last (snapshots_or_empty (loaded week_of_polls 30))) -
       snapshot.timestamp (hd (snapshots_or_empty (loaded week_of_polls 30)))\<bar> \<le> 9007199254740992"
    by simp
  have days: "day_span (snapshots_or_empty (loaded week_of_polls 30)) = 12"
    by (simp add: day_span_def sample_defs)
  show ?thesis
    using loaded span
      data_logged_spans_all_snapshots [OF loaded near, of utc 1700000000000 1]
      data_logged_spans_all_snapshots [OF loaded near, of utc 1700000000000 365]
    by (simp add: days)
qed

text \<open>
  C9. There are inputs where the member's last in-window entry has
  \<open>last_action_timestamp\<close> 0 and an earlier one a known timestamp. For each of them the
  summary entry has \<open>last_seen_timestamp\<close> 0, copied from the last entry, and
  \<open>days_active\<close> at least 1; rendered at any clock reading from the second day of the
  epoch on, the member's row is in the table and reads Offline. (The member-id is any
  but \<open>__proto__\<close>, which the summary cannot hold.)
\<close>

theorem zero_last_seen_reads_offline:
  assumes "in_window_activity tza now days st userId = earlier @ [latest]"
    and "last_action_timestamp latest = Some 0"
    and "a \<in> set earlier"
    and "last_action_timestamp a = Some t"
    and "0 < t"
    and "userId \<in> fst ` set (membersData st)"
    and "msPerDay \<le> clock"
    and "userId \<noteq> ''__proto__''"
  shows "\<exists>e rows. (userId, e) \<in> set (getActivitySummary tza now days st) \<and>
           last_seen_timestamp e = Some 0 \<and> 1 \<le> days_active e \<and>
           membersTable (renderMembers clock (getActivitySummary tza now days st) pg) =
             Some (Rows rows) \<and>
           render_row clock (userId, e) \<in> set rows \<and>
           statusText (render_row clock (userId, e)) = ''Offline''"
proof -
  let ?acts = "in_window_activity tza now days st userId"
  let ?summary = "getActivitySummary tza now days st"
  from assms(1) have "?acts \<noteq> []" by simp
  with assms(6,8) obtain e where e: "(userId, e) \<in> set ?summary"
    using summary_has_entry by blast
  from summary_entry_facts [OF e] assms(1)
  have seen: "last_seen_timestamp e = last_action_timestamp latest"
    and active: "days_active e = length (activeDates tza ?acts [])"
    by (simp_all add: in_window_activity_def)
  from assms(1,3,4,5) have "t \<in> positive_stamps ?acts"
    by (force simp: positive_stamps_def)
  then have "date_of tza t \<in> set (activeDates tza ?acts [])"
    by (simp add: activeDates_set)
  then have "activeDates tza ?acts [] \<noteq> []" by auto
  with active have days: "1 \<le> days_active e"
    by (cases "activeDates tza ?acts []") simp_all
  from seen assms(2) have zero: "last_seen_timestamp e = Some 0" by simp
  have "(1440::real) \<le> real_of_int clock / 60000"
    using assms(7) by (simp add: msPerDay_def)
  with zero have label: "statusText (render_row clock (userId, e)) = ''Offline''"
    by (simp add: render_row_label)
  let ?rows = "map (render_row clock) (sort_entries ?summary)"
  from e have row_in: "render_row clock (userId, e) \<in> set ?rows"
    by (simp add: sort_entries_set)
  then have "?rows \<noteq> []" by auto
  then have table: "membersTable (renderMembers clock ?summary pg) = Some (Rows ?rows)"
    by (simp add: renderMembers_def Let_def)
  from e zero days table row_in label show ?thesis by blast
qed

theorem zero_last_seen_reads_offline_witness:
  "in_window_activity utc 1700000000000 7 (loaded stale_polls 7) ''u1'' =
     [member_entry (stale_polls ! 0) ''u1''] @ [member_entry (stale_polls ! 1) ''u1'']
   \<and> last_action_timestamp (member_entry (stale_polls ! 1) ''u1'') = Some 0
   \<and> last_action_timestamp (member_entry (stale_polls ! 0) ''u1'') = Some 1699890000
   \<and> (\<exists>e rows. (''u1'', e) \<in> set (getActivitySummary utc 1700000000000 7 (loaded stale_polls 7)) \<and>
           last_seen_timestamp e = Some 0 \<and> 1 \<le> days_active e \<and>
           membersTable (renderMembers 1700000000000
             (getActivitySummary utc 1700000000000 7 (loaded stale_polls 7))
             (loaded stale_polls 7)) = Some (Rows rows) \<and>
           render_row 1700000000000 (''u1'', e) \<in> set rows \<and>
           statusText (render_row 1700000000000 (''u1'', e)) = ''Offline'')"
proof -
  have acts: "in_window_activity utc 1700000000000 7 (loaded stale_polls 7) ''u1'' =
     [member_entry (stale_polls ! 0) ''u1''] @ [member_entry (stale_polls ! 1) ''u1'']"
    by (simp add: in_window_activity_def member_entry_def stale_polls_def sample_defs)
  have last0: "last_action_timestamp (member_entry (stale_polls ! 1) ''u1'') = Some 0"
    by (simp add: member_entry_def read_member_def stale_polls_def poll_def entry_def)
  have first: "last_action_timestamp (member_entry (stale_polls ! 0) ''u1'') = Some 1699890000"
    by (simp add: member_entry_def read_member_def stale_polls_def poll_def entry_def)
  have earlier: "member_entry (stale_polls ! 0) ''u1'' \<in> set [member_entry (stale_polls ! 0) ''u1'']"
    by simp
  have pos: "(0::int) < 1699890000" by simp
  have known: "''u1'' \<in> fst ` set (membersData (loaded stale_polls 7))"
    by (simp add: sample_defs)
  have clock: "msPerDay \<le> 1700000000000"
    by (simp add: msPerDay_def)
  have plain: "''u1'' \<noteq> ''__proto__''" by simp
  from zero_last_seen_reads_offline [OF acts last0 earlier first pos known clock plain,
         of "loaded stale_polls 7"] acts last0 first
  show ?thesis by simp
qed

section \<open>Falsy entries\<close>

lemma summary_loop_cong:
  assumes "\<And>u. memberActivity c u snaps [] = memberActivity c u snaps' []"
  shows "summary_loop tza c snaps ms summary = summary_loop tza c snaps' ms summary"
proof (induction ms arbitrary: summary)
  case Nil
  show ?case by simp
next
  case (Cons p ms)
  obtain u m where p: "p = (u, m)" by (cases p)
  show ?case
    unfolding p by (simp add: assms Let_def Cons.IH)
qed

lemma summary_loop_lookup_cong:
  assumes "memberActivity c u snaps [] = memberActivity c u snaps' []"
    and "map_of summary u = map_of summary' u"
  shows "map_of (summary_loop tza c snaps ms summary) u =
         map_of (summary_loop tza c snaps' ms summary') u"
  using assms(2)
proof (induction ms arbitrary: summary summary')
  case Nil
  then show ?case by simp
next
  case (Cons p ms)
  obtain v m where p: "p = (v, m)" by (cases p)
  show ?case
  proof (cases "v = u")
    case True
    show ?thesis
      unfolding p True using Cons.prems
      by (auto simp: Let_def assms(1) assign_lookup intro!: Cons.IH)
  next
    case False
    show ?thesis
      unfolding p using Cons.prems False
      by (auto simp: Let_def assign_lookup intro!: Cons.IH)
  qed
qed

lemma memberActivity_append:
  "memberActivity c u (xs @ ys) [] = memberActivity c u xs [] @ memberActivity c u ys []"
  by (simp add: memberActivity_filter)

lemma falsy_not_truthy: "falsy v \<Longrightarrow> \<not> truthy (Own v)"
  by (cases v) simp_all

lemma memberActivity_skips:
  assumes "\<not> truthy (read_member s u)"
  shows "memberActivity c u (before @ s # after) [] = memberActivity c u (before @ after) []"
  using assms by (simp add: memberActivity_filter)

lemma read_member_without_key:
  "read_member (s\<lparr>members := (members s)(u := None)\<rparr>) v =
     (if v = u then (if u \<in> set object_prototype_keys then Inherited else Undefined)
      else read_member s v)"
  by (simp add: read_member_def)

lemma memberActivity_without_key:
  assumes "\<not> truthy (read_member s u)" and "u \<notin> set object_prototype_keys"
  shows "memberActivity c v (before @ s\<lparr>members := (members s)(u := None)\<rparr> # after) [] =
         memberActivity c v (before @ s # after) []"
  using assms by (auto simp: memberActivity_filter member_entry_def read_member_without_key)

text \<open>
  C10. When a snapshot maps a member-id to a falsy value, then for that member the
  summary entry (its \<open>total_polls\<close>, \<open>days_active\<close> and \<open>last_seen\<close> fields) and the timeline
  are what they would be without the snapshot. Moreover, unless the id names a property
  that the mapping would then inherit, the summary and the timeline are what they would
  be if the snapshot had no such key.
\<close>

theorem falsy_entry_ignored:
  assumes "members s userId = Some v" and "falsy v"
  shows "(userId \<notin> set object_prototype_keys \<longrightarrow>
           getActivitySummary tza now days (pg\<lparr>activityData := Some (before @ s # after)\<rparr>) =
           getActivitySummary tza now days
             (pg\<lparr>activityData := Some (before @ s\<lparr>members := (members s)(userId := None)\<rparr> # after)\<rparr>)
           \<and> showActivity_list tza now u (pg\<lparr>activityData := Some (before @ s # after)\<rparr>) =
             showActivity_list tza now u
               (pg\<lparr>activityData := Some (before @ s\<lparr>members := (members s)(userId := None)\<rparr> # after)\<rparr>))
         \<and> map_of (getActivitySummary tza now days (pg\<lparr>activityData := Some (before @ s # after)\<rparr>)) userId =
           map_of (getActivitySummary tza now days (pg\<lparr>activityData := Some (before @ after)\<rparr>)) userId
         \<and> showActivity_list tza now userId (pg\<lparr>activityData := Some (before @ s # after)\<rparr>) =
           showActivity_list tza now userId (pg\<lparr>activityData := Some (before @ after)\<rparr>)"
proof -
  from assms have nt: "\<not> truthy (read_member s userId)"
    by (simp add: read_member_def falsy_not_truthy)
  have summary_key:
    "getActivitySummary tza now days (pg\<lparr>activityData := Some (before @ s # after)\<rparr>) =
     getActivitySummary tza now days
       (pg\<lparr>activityData := Some (before @ s\<lparr>members := (members s)(userId := None)\<rparr> # after)\<rparr>)"
    if plain: "userId \<notin> set object_prototype_keys"
  proof -
    have "summary_loop tza (cutoffDate tza now days) (before @ s # after) (membersData pg) [] =
          summary_loop tza (cutoffDate tza now days)
            (before @ s\<lparr>members := (members s)(userId := None)\<rparr> # after) (membersData pg) []"
      by (rule summary_loop_cong) (simp add: memberActivity_without_key [OF nt plain])
    then show ?thesis
      by (simp add: getActivitySummary_def snapshots_or_empty_def)
  qed
  have timeline_key:
    "showActivity_list tza now u (pg\<lparr>activityData := Some (before @ s # after)\<rparr>) =
     showActivity_list tza now u
       (pg\<lparr>activityData := Some (before @ s\<lparr>members := (members s)(userId := None)\<rparr> # after)\<rparr>)"
    if plain: "userId \<notin> set object_prototype_keys"
    by (simp add: showActivity_list_def snapshots_or_empty_def timelineActivity_eq
          memberActivity_without_key [OF nt plain])
  have summary_drop:
    "map_of (getActivitySummary tza now days (pg\<lparr>activityData := Some (before @ s # after)\<rparr>)) userId =
     map_of (getActivitySummary tza now days (pg\<lparr>activityData := Some (before @ after)\<rparr>)) userId"
  proof -
    have "map_of (summary_loop tza (cutoffDate tza now days) (before @ s # after)
                    (membersData pg) []) userId =
          map_of (summary_loop tza (cutoffDate tza now days) (before @ after)
                    (membersData pg) []) userId"
      by (rule summary_loop_lookup_cong) (simp_all add: memberActivity_skips [OF nt])
    then show ?thesis
      by (simp add: getActivitySummary_def snapshots_or_empty_def)
  qed
  have timeline_drop:
    "showActivity_list tza now userId (pg\<lparr>activityData := Some (before @ s # after)\<rparr>) =
     showActivity_list tza now userId (pg\<lparr>activityData := Some (before @ after)\<rparr>)"
    by (simp add: showActivity_list_def snapshots_or_empty_def timelineActivity_eq
          memberActivity_skips [OF nt])
  from summary_key timeline_key summary_drop timeline_drop show ?thesis by blast
qed

theorem falsy_entry_ignored_witness:
  "members (week_of_polls ! 1) ''u2'' = Some JNull \<and> falsy JNull
   \<and> ''u2'' \<notin> set object_prototype_keys
   \<and> getActivitySummary utc 1700000000000 7 (loaded week_of_polls 7) =
       getActivitySummary utc 1700000000000 7
         (loaded [week_of_polls ! 0,
                  (week_of_polls ! 1)\<lparr>members := (members (week_of_polls ! 1))(''u2'' := None)\<rparr>,
                  week_of_polls ! 2] 7)
   \<and> map_of (getActivitySummary utc 1700000000000 7 (loaded week_of_polls 7)) ''u2'' =
       map_of (getActivitySummary utc 1700000000000 7
                 (loaded [week_of_polls ! 0, week_of_polls ! 2] 7)) ''u2''
   \<and> showActivity_list utc 1700000000000 ''u2'' (loaded week_of_polls 7) =
       showActivity_list utc 1700000000000 ''u2'' (loaded [week_of_polls ! 0, week_of_polls ! 2] 7)
   \<and> showActivity_list utc 1700000000000 ''u2'' (loaded week_of_polls 7) = []"
proof -
  have null: "members (week_of_polls ! 1) ''u2'' = Some JNull"
    by (simp add: week_of_polls_def poll_def)
  have f: "falsy JNull" by simp
  have plain: "''u2'' \<notin> set object_prototype_keys"
    by (simp add: object_prototype_keys_def)
  have split: "(loaded week_of_polls 7)\<lparr>activityData :=
        Some ([week_of_polls ! 0] @ week_of_polls ! 1 # [week_of_polls ! 2])\<rparr> =
      loaded week_of_polls 7"
    by (simp add: loaded_def week_of_polls_def)
  have keyless: "(loaded week_of_polls 7)\<lparr>activityData :=
        Some ([week_of_polls ! 0] @
              (week_of_polls ! 1)\<lparr>members := (members (week_of_polls ! 1))(''u2'' := None)\<rparr> #
              [week_of_polls ! 2])\<rparr> =
      loaded [week_of_polls ! 0,
              (week_of_polls ! 1)\<lparr>members := (members (week_of_polls ! 1))(''u2'' := None)\<rparr>,
              week_of_polls ! 2] 7"
    by (simp add: loaded_def)
  have without: "(loaded week_of_polls 7)\<lparr>activityData :=
        Some ([week_of_polls ! 0] @ [week_of_polls ! 2])\<rparr> =
      loaded [week_of_polls ! 0, week_of_polls ! 2] 7"
    by (simp add: loaded_def)
  have empty: "showActivity_list utc 1700000000000 ''u2'' (loaded week_of_polls 7) = []"
    by (simp add: showActivity_list_def sample_defs)
  note inst = falsy_entry_ignored [OF null f, where tza = utc and now = 1700000000000 and days = 7
         and pg = "loaded week_of_polls 7" and before = "[week_of_polls ! 0]"
         and after = "[week_of_polls ! 2]" and u = "''u2''"]
  have "getActivitySummary utc 1700000000000 7 (loaded week_of_polls 7) =
       getActivitySummary utc 1700000000000 7
         (loaded [week_of_polls ! 0,
                  (week_of_polls ! 1)\<lparr>members := (members (week_of_polls ! 1))(''u2'' := None)\<rparr>,
                  week_of_polls ! 2] 7)
   \<and> map_of (getActivitySummary utc 1700000000000 7 (loaded week_of_polls 7)) ''u2'' =
       map_of (getActivitySummary utc 1700000000000 7
                 (loaded [week_of_polls ! 0, week_of_polls ! 2] 7)) ''u2''
   \<and> showActivity_list utc 1700000000000 ''u2'' (loaded week_of_polls 7) =
       showActivity_list utc 1700000000000 ''u2'' (loaded [week_of_polls ! 0, week_of_polls ! 2] 7)"
    using inst plain unfolding split keyless without by blast
  with null f plain empty show ?thesis by blast
qed

section \<open>Properties of the data loader\<close>

lemma renderDashboard_completes:
  "\<exists>p. renderDashboard tza now pg = Normal p \<and> console p = console pg \<and>
       activityData p = activityData pg \<and> membersData p = membersData pg \<and>
       timelinePanel p = timelinePanel pg \<and>
       membersTable p \<noteq> None \<and>
       membersTable p \<noteq> Some (Placeholder ''Error loading data. Run tracker first.'') \<and>
       summaryPanel p \<noteq> None \<and> lastUpdated p \<noteq> None"
proof (cases "snapshots_or_empty pg = []")
  case True
  then show ?thesis
    by (simp add: renderDashboard_def updateStats_def)
next
  case False
  then show ?thesis
    by (simp add: renderDashboard_def renderStats_cards renderMembers_def Let_def)
qed

lemma renderDashboard_no_snapshots:
  assumes "activityData pg = None"
  shows "renderDashboard tza now pg =
     Normal (pg\<lparr>membersTable := Some (Placeholder ''No data yet. Tracker will populate this.''),
               summaryPanel := Some Dashes, lastUpdated := Some Loading\<rparr>)"
  using assms by (simp add: renderDashboard_def snapshots_or_empty_def updateStats_def)

lemma summary_without_snapshots:
  "summary_loop tza c [] ms summary = summary"
  by (induction ms arbitrary: summary) auto

text \<open>
  C6. Loading from the freshly opened page.
  If neither fetch throws, a response that is not OK leaves its dataset at the empty
  default and logs a warning; no error is logged, the dashboard is rendered and the
  table does not show the load error.
  Scenario C: with the activity response not OK and the members response OK, the summary
  is empty, the table shows the "no data yet" placeholder and only the warning is logged.
  If a fetch throws, exactly one error is logged, the table shows the load error, and
  nothing else is rendered.
\<close>

theorem loader_error_tiers:
  fixes tza :: zone and now days :: int
    and fa :: "snapshot list option fetched" and fm :: "(string \<times> member) list fetched"
  defines "p \<equiv> initializeDashboard tza now fa fm (page_loaded days)"
  shows "(\<not> fetch_throws fa \<and> \<not> fetch_throws fm \<longrightarrow>
            (non_ok fa \<longrightarrow> activityData p = None \<and> Warn ''No activity data found'' \<in> set (console p)) \<and>
            (non_ok fm \<longrightarrow> membersData p = [] \<and> Warn ''No members data found'' \<in> set (console p)) \<and>
            filter is_error (console p) = [] \<and>
            (\<exists>p1. renderDashboard tza now p1 = Normal p) \<and>
            membersTable p \<noteq> None \<and>
            membersTable p \<noteq> Some (Placeholder ''Error loading data. Run tracker first.'') \<and>
            summaryPanel p \<noteq> None)
         \<and> (non_ok fa \<and> (\<exists>ms. fm = Resolved (Response True (Some ms))) \<longrightarrow>
            getActivitySummary tza now days p = [] \<and>
            membersTable p = Some (Placeholder ''No data yet. Tracker will populate this.'') \<and>
            console p = [Warn ''No activity data found''])
         \<and> (fetch_throws fa \<or> fetch_throws fm \<longrightarrow>
            filter is_error (console p) = [Error ''Error loading data:''] \<and>
            membersTable p = Some (Placeholder ''Error loading data. Run tracker first.'') \<and>
            summaryPanel p = None \<and> lastUpdated p = None \<and> timelinePanel p = None)"
proof -
  have soft: "(non_ok fa \<longrightarrow> activityData p = None \<and> Warn ''No activity data found'' \<in> set (console p)) \<and>
            (non_ok fm \<longrightarrow> membersData p = [] \<and> Warn ''No members data found'' \<in> set (console p)) \<and>
            filter is_error (console p) = [] \<and>
            (\<exists>p1. renderDashboard tza now p1 = Normal p) \<and>
            membersTable p \<noteq> None \<and>
            membersTable p \<noteq> Some (Placeholder ''Error loading data. Run tracker first.'') \<and>
            summaryPanel p \<noteq> None"
    if ok: "\<not> fetch_throws fa" "\<not> fetch_throws fm"
  proof -
    from ok(1) obtain ra where fa: "fa = Resolved ra" by (cases fa) simp_all
    from ok(2) obtain rm where fm: "fm = Resolved rm" by (cases fm) simp_all
    define pg1 where "pg1 =
      (if ok ra then (page_loaded days)\<lparr>activityData := the (json ra)\<rparr>
       else warn ''No activity data found'' (page_loaded days))"
    define pg2 where "pg2 =
      (if ok rm then pg1\<lparr>membersData := the (json rm)\<rparr>
       else warn ''No members data found'' pg1)"
    have body: "try_block tza now fa fm (page_loaded days) = renderDashboard tza now pg2"
      using ok unfolding fa fm
      by (auto simp: try_block_def and_then_def pg1_def pg2_def)
    from renderDashboard_completes [of tza now pg2]
    obtain q where q: "renderDashboard tza now pg2 = Normal q" "console q = console pg2"
      "activityData q = activityData pg2" "membersData q = membersData pg2"
      "membersTable q \<noteq> None"
      "membersTable q \<noteq> Some (Placeholder ''Error loading data. Run tracker first.'')"
      "summaryPanel q \<noteq> None"
      by blast
    have p: "p = q"
      by (simp add: p_def initializeDashboard_def body q(1))
    have "\<not> ok ra \<Longrightarrow> activityData pg2 = None \<and> Warn ''No activity data found'' \<in> set (console pg2)"
      by (simp add: pg1_def pg2_def warn_def page_loaded_def)
    moreover have "\<not> ok rm \<Longrightarrow> membersData pg2 = [] \<and> Warn ''No members data found'' \<in> set (console pg2)"
      by (simp add: pg1_def pg2_def warn_def page_loaded_def)
    moreover have "filter is_error (console pg2) = []"
      by (simp add: pg1_def pg2_def warn_def page_loaded_def)
    ultimately show ?thesis
      unfolding p using q by (auto simp: fa fm)
  qed
  have scenario: "getActivitySummary tza now days p = [] \<and>
            membersTable p = Some (Placeholder ''No data yet. Tracker will populate this.'') \<and>
            console p = [Warn ''No activity data found'']"
    if "non_ok fa" and "\<exists>ms. fm = Resolved (Response True (Some ms))"
  proof -
    from that(1) obtain ra where fa: "fa = Resolved ra" "\<not> ok ra" by (cases fa) simp_all
    from that(2) obtain ms where fm: "fm = Resolved (Response True (Some ms))" by blast
    let ?pg = "(warn ''No activity data found'' (page_loaded days))\<lparr>membersData := ms\<rparr>"
    have none: "activityData ?pg = None"
      by (simp add: warn_def page_loaded_def)
    have "p = ?pg\<lparr>membersTable := Some (Placeholder ''No data yet. Tracker will populate this.''),
                 summaryPanel := Some Dashes, lastUpdated := Some Loading\<rparr>"
      unfolding p_def initializeDashboard_def fa(1) fm
      using fa(2) by (simp add: try_block_def and_then_def renderDashboard_no_snapshots [OF none])
    then show ?thesis
      by (simp add: getActivitySummary_def snapshots_or_empty_def warn_def page_loaded_def
            summary_without_snapshots)
  qed
  have hard: "filter is_error (console p) = [Error ''Error loading data:''] \<and>
            membersTable p = Some (Placeholder ''Error loading data. Run tracker first.'') \<and>
            summaryPanel p = None \<and> lastUpdated p = None \<and> timelinePanel p = None"
    if "fetch_throws fa \<or> fetch_throws fm"
  proof -
    have "\<exists>pg. try_block tza now fa fm (page_loaded days) = Throw pg \<and>
            filter is_error (console pg) = [] \<and> summaryPanel pg = None \<and>
            lastUpdated pg = None \<and> timelinePanel pg = None"
      using that
      by (cases fa; cases fm)
         (auto simp: try_block_def and_then_def warn_def page_loaded_def split: option.splits)
    then obtain pg where "try_block tza now fa fm (page_loaded days) = Throw pg"
      "filter is_error (console pg) = []" "summaryPanel pg = None"
      "lastUpdated pg = None" "timelinePanel pg = None"
      by blast
    then show ?thesis
      by (simp add: p_def initializeDashboard_def catch_block_def)
  qed
  from soft scenario hard show ?thesis by blast
qed

theorem loader_error_tiers_witness:
  "\<not> fetch_throws (Resolved (Response False None) :: snapshot list option fetched)
   \<and> non_ok (Resolved (Response False None) :: snapshot list option fetched)
   \<and> \<not> fetch_throws (Resolved (Response True (Some roster)))
   \<and> getActivitySummary utc 1700000000000 7
         (initializeDashboard utc 1700000000000 (Resolved (Response False None))
            (Resolved (Response True (Some roster))) (page_loaded 7)) = []
   \<and> membersTable
         (initializeDashboard utc 1700000000000 (Resolved (Response False None))
            (Resolved (Response True (Some roster))) (page_loaded 7)) =
       Some (Placeholder ''No data yet. Tracker will populate this.'')
   \<and> console
         (initializeDashboard utc 1700000000000 (Resolved (Response False None))
            (Resolved (Response True (Some roster))) (page_loaded 7)) =
       [Warn ''No activity data found'']
   \<and> fetch_throws (Rejected :: snapshot list option fetched)
   \<and> membersTable
         (initializeDashboard utc 1700000000000 Rejected
            (Resolved (Response True (Some roster))) (page_loaded 7)) =
       Some (Placeholder ''Error loading data. Run tracker first.'')
   \<and> summaryPanel
         (initializeDashboard utc 1700000000000 Rejected
            (Resolved (Response True (Some roster))) (page_loaded 7)) = None"
  using loader_error_tiers [of "Resolved (Response False None)"
          "Resolved (Response True (Some roster))" utc 1700000000000 7]
        loader_error_tiers [of Rejected "Resolved (Response True (Some roster))"
          utc 1700000000000 7]
  by simp

end
